theory Spec2Isabelle
  imports Complex_Main "HOL-Library.AList"
begin

section \<open>JavaScript values, texts and exceptions\<close>

text \<open>
  The services under \<^verbatim>\<open>src/services\<close> and \<^verbatim>\<open>src/lib/safeStorage.ts\<close> are untyped at run
  time: whatever \<^verbatim>\<open>JSON.parse\<close> returns flows through property reads, truthiness tests and
  object spreads. A parsed value is therefore a \<open>json\<close> tree; an object is an association list
  in enumeration order (\<open>map_of\<close> reads a property, \<open>AList.update\<close> assigns one, keeping the
  position of an existing key and appending a new one, \<open>AList.delete\<close> is \<^verbatim>\<open>delete\<close>).
  \<^verbatim>\<open>undefined\<close> is \<open>None\<close> of \<open>json option\<close>; a property holding \<^verbatim>\<open>undefined\<close> is modelled
  as an absent property (\<^verbatim>\<open>JSON.stringify\<close> drops it and a read gives \<^verbatim>\<open>undefined\<close> either way).
  Numbers are the finite ones, as reals.
\<close>

datatype json =
    JNull
  | JBool bool
  | JNum real
  | JStr string
  | JArr "json list"
  | JObj "(string \<times> json) list"

text \<open>
  What \<^verbatim>\<open>safeStorage\<close> stores and hands back. Its four operations only store a string,
  return it and test it for emptiness, so they are modelled for any type \<open>'a\<close> of non-empty
  strings: an item is the empty string or a non-empty string. One more kind of item can
  come back from a read: the fallback object of safeStorage.ts is a plain object, and a read
  of a key it does not own that names a member of \<^verbatim>\<open>Object.prototype\<close> gives that member
  (a function, or the prototype itself), which is no string at all.
\<close>

datatype 'a item = EmptyText | NonEmpty 'a | PrototypeMember string

text \<open>
  The services test a stored string for emptiness and hand it to \<^verbatim>\<open>JSON.parse\<close>, nothing
  else. For them a non-empty string is what \<^verbatim>\<open>JSON.parse\<close> makes of it: a text it rejects,
  or the text of a JSON value (which is never empty). \<^verbatim>\<open>JSON.stringify\<close> of a \<open>json\<close> value
  is the text of that value. A member of \<^verbatim>\<open>Object.prototype\<close> handed to \<^verbatim>\<open>JSON.parse\<close> is
  converted to a string first (\<^verbatim>\<open>function toString() { [native code] }\<close>,
  \<^verbatim>\<open>[object Object]\<close>), which is not JSON.
\<close>

datatype content = Unparsable | Json json

type_synonym blob = "content item"

abbreviation Malformed :: blob where
  "Malformed \<equiv> NonEmpty Unparsable"

abbreviation JsonText :: "json \<Rightarrow> blob" where
  "JsonText v \<equiv> NonEmpty (Json v)"

datatype type_fault = NullProperty | NotAFunction | NotIterable

datatype js_error =
    SyntaxError
  | TypeError type_fault
  | Error string
  | StorageError
  | NetworkError
  | AbortError

fun JSON_parse :: "blob \<Rightarrow> js_error + json" where
  "JSON_parse (JsonText v) = Inr v"
| "JSON_parse EmptyText = Inl SyntaxError"
| "JSON_parse Malformed = Inl SyntaxError"
| "JSON_parse (PrototypeMember name) = Inl SyntaxError"

definition JSON_stringify :: "json \<Rightarrow> blob" where
  "JSON_stringify v = JsonText v"

text \<open>Truthiness of a value (\<^verbatim>\<open>!x\<close>, \<^verbatim>\<open>x || y\<close>, \<^verbatim>\<open>x ? a : b\<close>).\<close>

fun truthy :: "json option \<Rightarrow> bool" where
  "truthy None = False"
| "truthy (Some JNull) = False"
| "truthy (Some (JBool b)) = b"
| "truthy (Some (JNum n)) = (n \<noteq> 0)"
| "truthy (Some (JStr s)) = (s \<noteq> [])"
| "truthy (Some (JArr xs)) = True"
| "truthy (Some (JObj kvs)) = True"

text \<open>
  Truthiness of what a read gives: \<^verbatim>\<open>null\<close> (or \<^verbatim>\<open>undefined\<close>) and the empty string are
  falsy, a non-empty string and a member of \<^verbatim>\<open>Object.prototype\<close> are truthy.
\<close>

fun truthy_blob :: "'a item option \<Rightarrow> bool" where
  "truthy_blob None = False"
| "truthy_blob (Some EmptyText) = False"
| "truthy_blob (Some (NonEmpty a)) = True"
| "truthy_blob (Some (PrototypeMember name)) = True"

subsection \<open>Values built by the program\<close>

text \<open>
  A value the program holds before it is written, such as the configuration handed to
  \<^verbatim>\<open>saveStoredData\<close>, is plain data like a parsed value, but its numbers are those of the
  language: \<^verbatim>\<open>number\<close> admits \<^verbatim>\<open>NaN\<close> and the two infinities beside the finite numbers.
  \<^verbatim>\<open>JSON.stringify\<close> writes a number that is not finite as \<^verbatim>\<open>null\<close>, so \<open>to_json v\<close> is what
  \<^verbatim>\<open>JSON.parse(JSON.stringify(v))\<close> gives; \<open>of_json\<close> reads a parsed value as a value of the
  program. Finite numbers are equal as \<^verbatim>\<open>===\<close> has them equal, the two zeros being one number.
\<close>

datatype number = Finite real | NaN | Infinity | MinusInfinity

datatype js_data =
    VNull
  | VBool bool
  | VNum number
  | VStr string
  | VArr "js_data list"
  | VObj "(string \<times> js_data) list"

primrec to_json :: "js_data \<Rightarrow> json" where
  "to_json VNull = JNull"
| "to_json (VBool b) = JBool b"
| "to_json (VNum n) = (case n of Finite r \<Rightarrow> JNum r | NaN \<Rightarrow> JNull | Infinity \<Rightarrow> JNull | MinusInfinity \<Rightarrow> JNull)"
| "to_json (VStr s) = JStr s"
| "to_json (VArr xs) = JArr (map to_json xs)"
| "to_json (VObj kvs) = JObj (map (map_prod id to_json) kvs)"

primrec of_json :: "json \<Rightarrow> js_data" where
  "of_json JNull = VNull"
| "of_json (JBool b) = VBool b"
| "of_json (JNum r) = VNum (Finite r)"
| "of_json (JStr s) = VStr s"
| "of_json (JArr xs) = VArr (map of_json xs)"
| "of_json (JObj kvs) = VObj (map (map_prod id of_json) kvs)"

text \<open>Every number inside the value is finite.\<close>

primrec finite_numbers :: "js_data \<Rightarrow> bool" where
  "finite_numbers VNull = True"
| "finite_numbers (VBool b) = True"
| "finite_numbers (VNum n) = (case n of Finite r \<Rightarrow> True | NaN \<Rightarrow> False | Infinity \<Rightarrow> False | MinusInfinity \<Rightarrow> False)"
| "finite_numbers (VStr s) = True"
| "finite_numbers (VArr xs) = list_all finite_numbers xs"
| "finite_numbers (VObj kvs) = list_all (pred_prod (\<lambda>k. True) finite_numbers) kvs"

text \<open>\<^verbatim>\<open>JSON.stringify\<close> of a value built by the program.\<close>

definition JSON_stringify_data :: "js_data \<Rightarrow> blob" where
  "JSON_stringify_data v = JsonText (to_json v)"

section \<open>The storage medium and \<^verbatim>\<open>safeStorage\<close> (src/lib/safeStorage.ts)\<close>

text \<open>
  \<^verbatim>\<open>localStorage\<close> is outside the repository. It is a key-value store whose four
  operations may throw (access denied, quota exceeded); \<open>failing\<close> lists the operations that
  throw in the current condition of the medium. An operation that throws changes nothing.
  \<open>memoryStorage\<close> is the module-level fallback object of safeStorage.ts, \<open>dispatched\<close> the
  types of the events dispatched on \<^verbatim>\<open>window\<close>, \<open>fetched\<close> the URLs requested from the network
  (both oldest first).
\<close>

datatype storage_op = GetItem | SetItem | RemoveItem | Clear

record 'a world_of =
  localStorage :: "(string \<times> 'a item) list"
  failing :: "storage_op list"
  memoryStorage :: "(string \<times> 'a item) list"
  dispatched :: "string list"
  fetched :: "string list"

text \<open>The world of the services, whose strings are JSON texts or not.\<close>

type_synonym world = "content world_of"

definition throws :: "'a world_of \<Rightarrow> storage_op \<Rightarrow> bool" where
  "throws w op = (op \<in> set (failing w))"

definition localStorage_getItem :: "'a world_of \<Rightarrow> string \<Rightarrow> js_error + 'a item option" where
  "localStorage_getItem w key =
     (if throws w GetItem then Inl StorageError else Inr (map_of (localStorage w) key))"

definition localStorage_setItem :: "'a world_of \<Rightarrow> string \<Rightarrow> 'a item \<Rightarrow> js_error + 'a world_of" where
  "localStorage_setItem w key v =
     (if throws w SetItem then Inl StorageError
      else Inr (w\<lparr>localStorage := AList.update key v (localStorage w)\<rparr>))"

definition localStorage_removeItem :: "'a world_of \<Rightarrow> string \<Rightarrow> js_error + 'a world_of" where
  "localStorage_removeItem w key =
     (if throws w RemoveItem then Inl StorageError
      else Inr (w\<lparr>localStorage := AList.delete key (localStorage w)\<rparr>))"

definition localStorage_clear :: "'a world_of \<Rightarrow> js_error + 'a world_of" where
  "localStorage_clear w =
     (if throws w Clear then Inl StorageError else Inr (w\<lparr>localStorage := []\<rparr>))"

text \<open>
  \<^verbatim>\<open>const memoryStorage: Record<string, string> = {}\<close> is a plain object, so it inherits
  from \<^verbatim>\<open>Object.prototype\<close>, whose members (those of the language and of its Annex B) are
  these. None of them is enumerable, so \<^verbatim>\<open>for (const key in memoryStorage)\<close> visits the own
  properties only.
\<close>

definition Object_prototype_members :: "string list" where
  "Object_prototype_members =
     [''constructor'', ''hasOwnProperty'', ''isPrototypeOf'', ''propertyIsEnumerable'',
      ''toLocaleString'', ''toString'', ''valueOf'', ''__proto__'',
      ''__defineGetter__'', ''__defineSetter__'', ''__lookupGetter__'', ''__lookupSetter__'']"

text \<open>
  The read \<^verbatim>\<open>memoryStorage[key]\<close>: the own property, else the inherited member, else
  \<^verbatim>\<open>undefined\<close>.
\<close>

definition memory_read :: "(string \<times> 'a item) list \<Rightarrow> string \<Rightarrow> 'a item option" where
  "memory_read m key =
     (case map_of m key of
        Some v \<Rightarrow> Some v
      | None \<Rightarrow>
          if key \<in> set Object_prototype_members then Some (PrototypeMember key) else None)"

text \<open>
  The assignment \<^verbatim>\<open>memoryStorage[key] = value\<close> of a string: it creates or overwrites the own
  property (shadowing an inherited member), except for \<^verbatim>\<open>__proto__\<close>, whose inherited setter
  ignores a value that is neither an object nor \<^verbatim>\<open>null\<close>, so that nothing is stored.
\<close>

definition memory_write :: "(string \<times> 'a item) list \<Rightarrow> string \<Rightarrow> 'a item \<Rightarrow> (string \<times> 'a item) list" where
  "memory_write m key v = (if key = ''__proto__'' then m else AList.update key v m)"

text \<open>
  \<^verbatim>\<open>getItem\<close>: the catch branch returns \<^verbatim>\<open>memoryStorage[key] || null\<close>, so a falsy stored
  string becomes \<^verbatim>\<open>null\<close>.
\<close>

definition getItem :: "'a world_of \<Rightarrow> string \<Rightarrow> 'a item option" where
  "getItem w key =
     (case localStorage_getItem w key of
        Inr v \<Rightarrow> v
      | Inl e \<Rightarrow>
          (if truthy_blob (memory_read (memoryStorage w) key)
           then memory_read (memoryStorage w) key else None))"

definition setItem :: "'a world_of \<Rightarrow> string \<Rightarrow> 'a item \<Rightarrow> 'a world_of" where
  "setItem w key v =
     (case localStorage_setItem w key v of
        Inr w' \<Rightarrow> w'
      | Inl e \<Rightarrow> w\<lparr>memoryStorage := memory_write (memoryStorage w) key v\<rparr>)"

definition removeItem :: "'a world_of \<Rightarrow> string \<Rightarrow> 'a world_of" where
  "removeItem w key =
     (case localStorage_removeItem w key of
        Inr w' \<Rightarrow> w'
      | Inl e \<Rightarrow> w\<lparr>memoryStorage := AList.delete key (memoryStorage w)\<rparr>)"

definition clear :: "'a world_of \<Rightarrow> 'a world_of" where
  "clear w =
     (case localStorage_clear w of
        Inr w' \<Rightarrow> w'
      | Inl e \<Rightarrow> w\<lparr>memoryStorage := []\<rparr>)"

section \<open>Language primitives used by the services\<close>

text \<open>
  What the host supplies during one call: the clock, the random id
  \<^verbatim>\<open>Math.random().toString(36).substr(2, 9)\<close>, the three \<^verbatim>\<open>new Date().toISOString()\<close>
  strings evaluated when storageService.ts is loaded, the engine's wording and stack for an
  error object, the engine's \<^verbatim>\<open>ToNumber\<close> on strings, arrays and objects, and the outcome of
  \<^verbatim>\<open>fetch(url)\<close> under the 8 second abort timer: a rejection (a network error, or the
  abort), or a response with its status and its body, taken as received in full.
\<close>

datatype fetch_outcome =
    Rejected js_error
  | Response nat blob

record js_env =
  Date_now :: real
  random_id :: string
  event1_date :: string
  event2_date :: string
  event3_date :: string
  engine_message :: "js_error \<Rightarrow> string"
  engine_stack :: "js_error \<Rightarrow> string option"
  ToNumber :: "json \<Rightarrow> js_error + real option"
  fetch :: "string \<Rightarrow> fetch_outcome"

text \<open>\<^verbatim>\<open>error.message\<close>: the text given to \<^verbatim>\<open>new Error(...)\<close>, else the engine's wording.\<close>

fun message_of :: "js_env \<Rightarrow> js_error \<Rightarrow> string" where
  "message_of env (Error m) = m"
| "message_of env e = engine_message env e"

text \<open>
  Property read \<^verbatim>\<open>v.k\<close>. Reading from \<^verbatim>\<open>null\<close> throws; primitives and arrays have none of
  the properties the services read (\<^verbatim>\<open>pages\<close>, \<^verbatim>\<open>theme\<close>, \<^verbatim>\<open>type\<close>, \<^verbatim>\<open>data\<close>, ...), so the
  read gives \<^verbatim>\<open>undefined\<close>.
\<close>

fun get_prop :: "json \<Rightarrow> string \<Rightarrow> js_error + json option" where
  "get_prop JNull k = Inl (TypeError NullProperty)"
| "get_prop (JObj kvs) k = Inr (map_of kvs k)"
| "get_prop v k = Inr None"

text \<open>\<^verbatim>\<open>a || d\<close> for a defined \<^verbatim>\<open>d\<close>.\<close>

fun or_else :: "json option \<Rightarrow> json \<Rightarrow> json" where
  "or_else None d = d"
| "or_else (Some v) d = (if truthy (Some v) then v else d)"

fun decimal :: "nat \<Rightarrow> string" where
  "decimal n =
     (if n < 10 then [''0123456789'' ! n]
      else decimal (n div 10) @ [''0123456789'' ! (n mod 10)])"

declare decimal.simps [simp del]

definition indexed :: "'a list \<Rightarrow> (string \<times> 'a) list" where
  "indexed xs = zip (map decimal [0..<length xs]) xs"

text \<open>
  Object spread \<^verbatim>\<open>{...v}\<close>: the own enumerable properties. An array or a string spreads its
  indices; \<^verbatim>\<open>null\<close>, booleans and numbers spread nothing.
\<close>

fun spread_props :: "json \<Rightarrow> (string \<times> json) list" where
  "spread_props (JObj kvs) = kvs"
| "spread_props (JArr xs) = indexed xs"
| "spread_props (JStr s) = indexed (map (\<lambda>c. JStr [c]) s)"
| "spread_props v = []"

text \<open>Array spread \<^verbatim>\<open>[...v]\<close>: arrays and strings are iterable, nothing else in JSON is.\<close>

fun spread_iter :: "json \<Rightarrow> js_error + json list" where
  "spread_iter (JArr xs) = Inr xs"
| "spread_iter (JStr s) = Inr (map (\<lambda>c. JStr [c]) s)"
| "spread_iter v = Inl (TypeError NotIterable)"

text \<open>
  Rest destructuring \<^verbatim>\<open>const { k, ...rest } = v\<close> of a value of the program: the own
  enumerable properties but \<^verbatim>\<open>k\<close>; \<^verbatim>\<open>null\<close> cannot be destructured.
\<close>

fun own_props :: "js_data \<Rightarrow> (string \<times> js_data) list" where
  "own_props (VObj kvs) = kvs"
| "own_props (VArr xs) = indexed xs"
| "own_props (VStr s) = indexed (map (\<lambda>c. VStr [c]) s)"
| "own_props v = []"

fun rest_without :: "string \<Rightarrow> js_data \<Rightarrow> js_error + (string \<times> js_data) list" where
  "rest_without k VNull = Inl (TypeError NullProperty)"
| "rest_without k v = Inr (AList.delete k (own_props v))"

fun map_err :: "('a \<Rightarrow> js_error + 'b) \<Rightarrow> 'a list \<Rightarrow> js_error + 'b list" where
  "map_err f [] = Inr []"
| "map_err f (x # xs) =
     (case f x of
        Inl e \<Rightarrow> Inl e
      | Inr y \<Rightarrow> (case map_err f xs of Inl e \<Rightarrow> Inl e | Inr ys \<Rightarrow> Inr (y # ys)))"

text \<open>
  \<^verbatim>\<open>v.map(f)\<close> on a truthy value: only an array has a callable \<^verbatim>\<open>map\<close> (a parsed object
  may own a \<^verbatim>\<open>map\<close> property, but never a function).
\<close>

fun Array_map :: "(json \<Rightarrow> js_error + json) \<Rightarrow> json \<Rightarrow> js_error + json" where
  "Array_map f (JArr xs) = (case map_err f xs of Inl e \<Rightarrow> Inl e | Inr ys \<Rightarrow> Inr (JArr ys))"
| "Array_map f JNull = Inl (TypeError NullProperty)"
| "Array_map f v = Inl (TypeError NotAFunction)"

text \<open>
  Numeric conversion for \<^verbatim>\<open>now - entry.timestamp\<close>; \<open>None\<close> is \<^verbatim>\<open>NaN\<close>, and every
  comparison with \<^verbatim>\<open>NaN\<close> is false.
\<close>

fun to_number :: "js_env \<Rightarrow> json option \<Rightarrow> js_error + real option" where
  "to_number env None = Inr None"
| "to_number env (Some JNull) = Inr (Some 0)"
| "to_number env (Some (JBool b)) = Inr (Some (if b then 1 else 0))"
| "to_number env (Some (JNum n)) = Inr (Some n)"
| "to_number env (Some v) = ToNumber env v"

fun number_sub :: "real \<Rightarrow> real option \<Rightarrow> real option" where
  "number_sub a None = None"
| "number_sub a (Some b) = Some (a - b)"

fun number_less :: "real option \<Rightarrow> real \<Rightarrow> bool" where
  "number_less None b = False"
| "number_less (Some a) b = (a < b)"

definition try_catch :: "(js_error + 'a) \<Rightarrow> (js_error \<Rightarrow> js_error + 'a) \<Rightarrow> js_error + 'a" where
  "try_catch body handler = (case body of Inr r \<Rightarrow> Inr r | Inl e \<Rightarrow> handler e)"

definition dispatchEvent :: "string \<Rightarrow> world \<Rightarrow> world" where
  "dispatchEvent ty w = w\<lparr>dispatched := dispatched w @ [ty]\<rparr>"

section \<open>The system log (\<^verbatim>\<open>logService\<close>: src/unnamed/part_001, lines 1-46)\<close>

definition LOG_STORAGE_KEY :: string where
  "LOG_STORAGE_KEY = ''HARDY_SYSTEM_LOGS''"

definition MAX_LOGS :: nat where
  "MAX_LOGS = 50"

definition getLogs_try :: "world \<Rightarrow> js_error + json" where
  "getLogs_try w =
     (case getItem w LOG_STORAGE_KEY of
        None \<Rightarrow> Inr (JArr [])
      | Some stored \<Rightarrow>
          if truthy_blob (Some stored) then JSON_parse stored else Inr (JArr []))"

definition getLogs :: "world \<Rightarrow> js_error + json" where
  "getLogs w = try_catch (getLogs_try w) (\<lambda>e. Inr (JArr []))"

text \<open>The entry written by \<^verbatim>\<open>addLog(log)\<close>: \<^verbatim>\<open>{ ...log, id: ..., timestamp: Date.now() }\<close>.\<close>

definition newLog :: "js_env \<Rightarrow> (string \<times> json) list \<Rightarrow> json" where
  "newLog env entry =
     JObj (AList.update ''timestamp'' (JNum (Date_now env))
            (AList.update ''id'' (JStr (random_id env)) entry))"

definition addLog_try :: "js_env \<Rightarrow> (string \<times> json) list \<Rightarrow> world \<Rightarrow> js_error + world" where
  "addLog_try env entry w =
     (case getLogs w of
        Inl e \<Rightarrow> Inl e
      | Inr logs \<Rightarrow>
          (case spread_iter logs of
             Inl e \<Rightarrow> Inl e
           | Inr old \<Rightarrow>
               (let updatedLogs = take MAX_LOGS (newLog env entry # old);
                    w1 = setItem w LOG_STORAGE_KEY (JSON_stringify (JArr updatedLogs))
                in Inr (dispatchEvent ''hardy-log-update'' w1))))"

definition addLog :: "js_env \<Rightarrow> (string \<times> json) list \<Rightarrow> world \<Rightarrow> js_error + world" where
  "addLog env entry w = try_catch (addLog_try env entry w) (\<lambda>e. Inr w)"

definition clearLogs :: "world \<Rightarrow> js_error + world" where
  "clearLogs w = Inr (dispatchEvent ''hardy-log-update'' (removeItem w LOG_STORAGE_KEY))"

text \<open>Appending a sequence of entries, each with the host values of its own call.\<close>

fun addLogs :: "(js_env \<times> (string \<times> json) list) list \<Rightarrow> world \<Rightarrow> js_error + world" where
  "addLogs [] w = Inr w"
| "addLogs (c # cs) w =
     (case addLog (fst c) (snd c) w of Inl e \<Rightarrow> Inl e | Inr w' \<Rightarrow> addLogs cs w')"

section \<open>Configuration persistence (src/services/storageService.ts)\<close>

definition STORAGE_KEY :: string where
  "STORAGE_KEY = ''HARDY_SIGNAGE_DATA''"

subsection \<open>\<^verbatim>\<open>DEFAULT_DATA\<close> (lines 8-90)\<close>

definition DEFAULT_theme :: json where
  "DEFAULT_theme = JObj
     [(''id'', JStr ''default''),
      (''name'', JStr ''Midnight Blue''),
      (''gradientStart'', JStr ''#000000''),
      (''gradientEnd'', JStr ''#1e1b4b''),
      (''accentColor'', JStr ''#3b82f6''),
      (''textColor'', JStr ''#ffffff''),
      (''logoUrl'', JStr [])]"

definition DEFAULT_announcements :: json where
  "DEFAULT_announcements = JArr
     [JObj [(''id'', JStr ''1''),
            (''type'', JStr ''text''),
            (''title'', JStr ''Science Fair Registration''),
            (''content'', JStr ''Registration for the annual Science Fair closes this Friday. Please visit the main office to sign up your team!''),
            (''active'', JBool True),
            (''priority'', JStr ''high'')],
      JObj [(''id'', JStr ''2''),
            (''type'', JStr ''image''),
            (''title'', JStr ''Student Art Showcase''),
            (''content'', JStr ''Join us in the main hall.''),
            (''imageUrl'', JStr ''https://images.unsplash.com/photo-1544531586-fde5298cdd40?q=80&w=2070&auto=format&fit=crop''),
            (''active'', JBool True),
            (''priority'', JStr ''normal'')]]"

definition DEFAULT_events :: "js_env \<Rightarrow> json" where
  "DEFAULT_events env = JArr
     [JObj [(''id'', JStr ''1''), (''title'', JStr ''Parent Teacher Conf''), (''time'', JStr ''16:00''),
            (''location'', JStr ''Auditorium''), (''date'', JStr (event1_date env)),
            (''category'', JStr ''Academic'')],
      JObj [(''id'', JStr ''2''), (''title'', JStr ''Basketball Finals''), (''time'', JStr ''15:30''),
            (''location'', JStr ''Gym''), (''date'', JStr (event2_date env)),
            (''category'', JStr ''Sports'')],
      JObj [(''id'', JStr ''3''), (''title'', JStr ''Jazz Band''), (''time'', JStr ''12:00''),
            (''location'', JStr ''Music Room''), (''date'', JStr (event3_date env)),
            (''category'', JStr ''Arts'')]]"

definition DEFAULT_eventCategories :: json where
  "DEFAULT_eventCategories = JArr
     [JObj [(''id'', JStr ''cat-1''), (''name'', JStr ''Academic''), (''icon'', JStr ''BookOpen'')],
      JObj [(''id'', JStr ''cat-2''), (''name'', JStr ''Sports''), (''icon'', JStr ''Trophy'')],
      JObj [(''id'', JStr ''cat-3''), (''name'', JStr ''Arts''), (''icon'', JStr ''Palette'')],
      JObj [(''id'', JStr ''cat-4''), (''name'', JStr ''General''), (''icon'', JStr ''Users'')]]"

definition DEFAULT_tickerItems :: json where
  "DEFAULT_tickerItems = JArr
     [JStr ''REMINDER: Early dismissal this Friday at 1:00 PM.'',
      JStr ''Report cards will be distributed next Monday.'',
      JStr ''Yearbook sales end on May 30th!'']"

definition DEFAULT_liveCamUrls :: json where
  "DEFAULT_liveCamUrls = JArr
     [JStr ''https://webcams.nyctmc.org/api/cameras/4c47eda8-a4a1-4e40-baea-578e0a99e1d8/image'',
      JStr ''https://webcams.nyctmc.org/api/cameras/9ca4e591-4ac8-471c-8e76-4710b52e6f9b/image'',
      JStr ''https://webcams.nyctmc.org/api/cameras/a01a8c98-d314-4eb4-bd7c-4a4f80d71c4b/image'']"

definition DEFAULT_pages :: json where
  "DEFAULT_pages = JArr
     [JObj [(''id'', JStr ''default-page''),
            (''title'', JStr ''Core Values''),
            (''type'', JStr ''standard''),
            (''content'', JStr ''## Our Mission\<newline>\<newline>* **Excellence**: We strive for the highest quality in everything we do.\<newline>* **Integrity**: We act with honesty and strong moral principles.\<newline>* **Community**: We foster a supportive and inclusive environment.\<newline>\<newline>Visit our website **www.novaacademy.edu** for more information.''),
            (''imageUrl'', JStr ''https://images.unsplash.com/photo-1513364776144-60967b0f800f?q=80&w=2071&auto=format&fit=crop'')]]"

definition DEFAULT_socials :: json where
  "DEFAULT_socials = JObj
     [(''phone'', JStr ''(555) 123-4567''),
      (''website'', JStr ''novaacademy.edu''),
      (''instagram'', JStr ''@NovaAcademy''),
      (''twitter'', JStr ''@NovaTweets'')]"

text \<open>\<^verbatim>\<open>audioData: undefined\<close> is an absent property here.\<close>

definition DEFAULT_emergency :: json where
  "DEFAULT_emergency = JObj
     [(''active'', JBool False),
      (''message'', JStr ''EMERGENCY ALERT: PLEASE PROCEED TO THE NEAREST EXIT CALMLY.''),
      (''timestamp'', JNum 0),
      (''includeSiren'', JBool False)]"

definition DEFAULT_weatherConfig :: json where
  "DEFAULT_weatherConfig = JObj
     [(''city'', JStr ''Far Rockaway''), (''lat'', JNum 40.6090), (''lon'', JNum (- 73.7630))]"

definition DEFAULT_customWidgets :: json where
  "DEFAULT_customWidgets = JArr []"

definition DEFAULT_DATA :: "js_env \<Rightarrow> (string \<times> json) list" where
  "DEFAULT_DATA env =
     [(''schoolName'', JStr ''Nova Academy''),
      (''theme'', DEFAULT_theme),
      (''announcements'', DEFAULT_announcements),
      (''events'', DEFAULT_events env),
      (''eventCategories'', DEFAULT_eventCategories),
      (''tickerItems'', DEFAULT_tickerItems),
      (''liveCamUrls'', DEFAULT_liveCamUrls),
      (''enableLiveCam'', JBool True),
      (''pageDuration'', JNum 60),
      (''pages'', DEFAULT_pages),
      (''socials'', DEFAULT_socials),
      (''emergency'', DEFAULT_emergency),
      (''weatherConfig'', DEFAULT_weatherConfig),
      (''customWidgets'', DEFAULT_customWidgets),
      (''isSafeMode'', JBool False)]"

subsection \<open>\<^verbatim>\<open>getStoredData\<close> (lines 92-156)\<close>

text \<open>\<^verbatim>\<open>if (!parsed.k) parsed.k = d\<close> and \<^verbatim>\<open>if (parsed.k === undefined) parsed.k = d\<close>.\<close>

definition default_if_falsy :: "string \<Rightarrow> json \<Rightarrow> (string \<times> json) list \<Rightarrow> (string \<times> json) list" where
  "default_if_falsy k d parsed =
     (if \<not> truthy (map_of parsed k) then AList.update k d parsed else parsed)"

definition default_if_undefined :: "string \<Rightarrow> json \<Rightarrow> (string \<times> json) list \<Rightarrow> (string \<times> json) list" where
  "default_if_undefined k d parsed =
     (if map_of parsed k = None then AList.update k d parsed else parsed)"

text \<open>Lines 110-116: the singular \<^verbatim>\<open>liveCamUrl\<close> becomes the list \<^verbatim>\<open>liveCamUrls\<close>.\<close>

definition migrate_liveCamUrls :: "(string \<times> json) list \<Rightarrow> (string \<times> json) list" where
  "migrate_liveCamUrls parsed =
     (if \<not> truthy (map_of parsed ''liveCamUrls'') then
        (case map_of parsed ''liveCamUrl'' of
           Some url \<Rightarrow>
             if truthy (Some url) then AList.update ''liveCamUrls'' (JArr [url]) parsed
             else AList.update ''liveCamUrls'' DEFAULT_liveCamUrls parsed
         | None \<Rightarrow> AList.update ''liveCamUrls'' DEFAULT_liveCamUrls parsed)
      else parsed)"

text \<open>
  Line 125: \<^verbatim>\<open>(p) => ({ ...p, type: p.type || 'standard' })\<close>. The spread of \<^verbatim>\<open>null\<close> is
  empty, the read \<^verbatim>\<open>p.type\<close> of \<^verbatim>\<open>null\<close> throws.
\<close>

definition normalize_page :: "json \<Rightarrow> js_error + json" where
  "normalize_page p =
     (case get_prop p ''type'' of
        Inl e \<Rightarrow> Inl e
      | Inr t \<Rightarrow> Inr (JObj (AList.update ''type'' (or_else t (JStr ''standard'')) (spread_props p))))"

text \<open>Lines 122-129.\<close>

definition migrate_pages :: "(string \<times> json) list \<Rightarrow> js_error + (string \<times> json) list" where
  "migrate_pages parsed =
     (case map_of parsed ''pages'' of
        None \<Rightarrow> Inr (AList.update ''pages'' DEFAULT_pages parsed)
      | Some pages \<Rightarrow>
          if \<not> truthy (Some pages) then Inr (AList.update ''pages'' DEFAULT_pages parsed)
          else (case Array_map normalize_page pages of
                  Inl e \<Rightarrow> Inl e
                | Inr mapped \<Rightarrow> Inr (AList.update ''pages'' mapped parsed)))"

text \<open>Lines 104-120: the migrations before the pages.\<close>

definition migrate_head :: "(string \<times> json) list \<Rightarrow> (string \<times> json) list" where
  "migrate_head parsed0 =
     (let parsed1 = default_if_falsy ''theme'' DEFAULT_theme parsed0;
          parsed2 = default_if_falsy ''tickerItems'' DEFAULT_tickerItems parsed1;
          parsed3 = default_if_undefined ''enableLiveCam'' (JBool False) parsed2;
          parsed4 = default_if_undefined ''pageDuration'' (JNum 60) parsed3;
          parsed5 = migrate_liveCamUrls parsed4;
          parsed6 = AList.delete ''liveCamUrl'' parsed5;
          parsed7 = AList.delete ''homeLayout'' parsed6
      in AList.delete ''homeWidgets'' parsed7)"

text \<open>Lines 131-143: the migrations after the pages, and the volatile flag.\<close>

definition migrate_tail :: "(string \<times> json) list \<Rightarrow> (string \<times> json) list" where
  "migrate_tail parsed9 =
     (let parsed10 = default_if_undefined ''socials'' DEFAULT_socials parsed9;
          parsed11 = default_if_undefined ''emergency'' DEFAULT_emergency parsed10;
          parsed12 = default_if_undefined ''weatherConfig'' DEFAULT_weatherConfig parsed11;
          parsed13 = default_if_falsy ''eventCategories'' DEFAULT_eventCategories parsed12;
          parsed14 = default_if_falsy ''customWidgets'' DEFAULT_customWidgets parsed13
      in AList.update ''isSafeMode'' (JBool False) parsed14)"

text \<open>Lines 104-144, on an object that passed the check of line 100.\<close>

definition migrate :: "(string \<times> json) list \<Rightarrow> js_error + json" where
  "migrate parsed =
     (case migrate_pages (migrate_head parsed) of
        Inl e \<Rightarrow> Inl e
      | Inr parsed9 \<Rightarrow> Inr (JObj (migrate_tail parsed9)))"

text \<open>Line 100: \<^verbatim>\<open>!parsed.pages || !parsed.theme || !parsed.schoolName\<close> on an object.\<close>

definition critical_missing :: "(string \<times> json) list \<Rightarrow> bool" where
  "critical_missing parsed =
     (\<not> truthy (map_of parsed ''pages'') \<or> \<not> truthy (map_of parsed ''theme'')
      \<or> \<not> truthy (map_of parsed ''schoolName''))"

definition incomplete :: js_error where
  "incomplete = Error ''Configuration structure is incomplete or corrupted.''"

text \<open>
  Lines 100-144 on whatever \<^verbatim>\<open>JSON.parse\<close> returned. \<^verbatim>\<open>null.pages\<close> throws; a boolean,
  number, string or array has none of the three properties, so the check of line 100 throws
  for it; only an object can reach the migrations.
\<close>

fun check_and_migrate :: "json \<Rightarrow> js_error + json" where
  "check_and_migrate JNull = Inl (TypeError NullProperty)"
| "check_and_migrate (JObj parsed) =
     (if critical_missing parsed then Inl incomplete else migrate parsed)"
| "check_and_migrate v = Inl incomplete"

text \<open>The body of the \<^verbatim>\<open>try\<close> block, lines 94-144.\<close>

definition getStoredData_try :: "js_env \<Rightarrow> world \<Rightarrow> js_error + json" where
  "getStoredData_try env w =
     (case getItem w STORAGE_KEY of
        None \<Rightarrow> Inr (JObj (DEFAULT_DATA env))
      | Some stored \<Rightarrow>
          if \<not> truthy_blob (Some stored) then Inr (JObj (DEFAULT_DATA env))
          else (case JSON_parse stored of
                  Inl e \<Rightarrow> Inl e
                | Inr parsed \<Rightarrow> check_and_migrate parsed))"

text \<open>The entry logged by the \<^verbatim>\<open>catch\<close> block, lines 147-152.\<close>

definition failure_entry :: "js_env \<Rightarrow> js_error \<Rightarrow> (string \<times> json) list" where
  "failure_entry env error =
     [(''level'', JStr ''error''),
      (''source'', JStr ''StorageService''),
      (''message'', JStr (''Failed to load data: '' @ message_of env error
                          @ ''. System recovered with defaults.''))]
     @ (case engine_stack env error of None \<Rightarrow> [] | Some st \<Rightarrow> [(''stack'', JStr st)])"

text \<open>Line 154: \<^verbatim>\<open>{ ...DEFAULT_DATA, isSafeMode: true }\<close>.\<close>

definition safe_mode_defaults :: "js_env \<Rightarrow> json" where
  "safe_mode_defaults env = JObj (AList.update ''isSafeMode'' (JBool True) (DEFAULT_DATA env))"

definition getStoredData :: "js_env \<Rightarrow> world \<Rightarrow> js_error + (json \<times> world)" where
  "getStoredData env w =
     try_catch
       (case getStoredData_try env w of Inl e \<Rightarrow> Inl e | Inr config \<Rightarrow> Inr (config, w))
       (\<lambda>error.
          case addLog env (failure_entry env error) w of
            Inl e \<Rightarrow> Inl e
          | Inr w' \<Rightarrow> Inr (safe_mode_defaults env, w'))"

subsection \<open>\<^verbatim>\<open>saveStoredData\<close> (lines 158-167)\<close>

definition saveStoredData_try :: "js_data \<Rightarrow> world \<Rightarrow> js_error + world" where
  "saveStoredData_try data w =
     (case rest_without ''isSafeMode'' data of
        Inl e \<Rightarrow> Inl e
      | Inr toSave \<Rightarrow>
          Inr (dispatchEvent ''hardy-storage-update''
                 (setItem w STORAGE_KEY (JSON_stringify_data (VObj toSave)))))"

definition saveStoredData :: "js_data \<Rightarrow> world \<Rightarrow> js_error + world" where
  "saveStoredData data w = try_catch (saveStoredData_try data w) (\<lambda>e. Inr w)"

text \<open>\<^verbatim>\<open>saveStoredData(data)\<close> followed by \<^verbatim>\<open>getStoredData()\<close>, and the value a call returned.\<close>

definition save_then_load :: "js_env \<Rightarrow> js_data \<Rightarrow> world \<Rightarrow> js_error + (json \<times> world)" where
  "save_then_load env data w =
     (case saveStoredData data w of Inl e \<Rightarrow> Inl e | Inr w1 \<Rightarrow> getStoredData env w1)"

definition returned :: "js_error + ('a \<times> world) \<Rightarrow> 'a option" where
  "returned r = (case r of Inl e \<Rightarrow> None | Inr vw \<Rightarrow> Some (fst vw))"

section \<open>The remote data cache (\<^verbatim>\<open>cacheService\<close>: src/unnamed/part_001, lines 94-167)\<close>

definition CACHE_PREFIX :: string where
  "CACHE_PREFIX = ''hardy_cache_''"

record CacheEntry =
  data :: json
  timestamp :: real

definition CacheEntry_js :: "CacheEntry \<Rightarrow> json" where
  "CacheEntry_js entry = JObj [(''data'', data entry), (''timestamp'', JNum (timestamp entry))]"

text \<open>
  Step 1, the body of the first \<^verbatim>\<open>try\<close> (lines 118-125): \<open>Some d\<close> is \<^verbatim>\<open>return entry.data\<close>,
  \<open>None\<close> falls through to the network.
\<close>

definition cache_read_try :: "js_env \<Rightarrow> world \<Rightarrow> string \<Rightarrow> real \<Rightarrow> js_error + json option option" where
  "cache_read_try env w cacheKey ttlSeconds =
     (case getItem w cacheKey of
        None \<Rightarrow> Inr None
      | Some cachedStr \<Rightarrow>
          if \<not> truthy_blob (Some cachedStr) then Inr None
          else (case JSON_parse cachedStr of
                  Inl e \<Rightarrow> Inl e
                | Inr entry \<Rightarrow>
                    (case get_prop entry ''timestamp'' of
                       Inl e \<Rightarrow> Inl e
                     | Inr ts \<Rightarrow>
                         (case to_number env ts of
                            Inl e \<Rightarrow> Inl e
                          | Inr t \<Rightarrow>
                              if number_less (number_sub (Date_now env) t) (ttlSeconds * 1000)
                              then (case get_prop entry ''data'' of
                                      Inl e \<Rightarrow> Inl e
                                    | Inr d \<Rightarrow> Inr (Some d))
                              else Inr None))))"

text \<open>\<^verbatim>\<open>res.ok\<close>\<close>

definition ok :: "nat \<Rightarrow> bool" where
  "ok status = (200 \<le> status \<and> status \<le> 299)"

text \<open>
  Steps 2 and 3, the body of the second \<^verbatim>\<open>try\<close> (lines 132-150), once the request has been
  issued. The write to the cache is the only effect, and nothing throws after it.
\<close>

definition network_try ::
  "js_env \<Rightarrow> world \<Rightarrow> string \<Rightarrow> string \<Rightarrow> js_error + (json option \<times> world)" where
  "network_try env w cacheKey url =
     (case fetch env url of
        Rejected e \<Rightarrow> Inl e
      | Response status body \<Rightarrow>
          if \<not> ok status then Inl (Error (''HTTP '' @ decimal status))
          else (case JSON_parse body of
                  Inl e \<Rightarrow> Inl e
                | Inr d \<Rightarrow>
                    Inr (Some d, setItem w cacheKey
                                   (JSON_stringify
                                      (CacheEntry_js \<lparr>data = d, timestamp = Date_now env\<rparr>)))))"

text \<open>Step 4, the body of the \<^verbatim>\<open>try\<close> inside the \<^verbatim>\<open>catch\<close> (lines 155-162).\<close>

definition stale_read_try :: "world \<Rightarrow> string \<Rightarrow> js_error + json option option" where
  "stale_read_try w cacheKey =
     (case getItem w cacheKey of
        None \<Rightarrow> Inr None
      | Some cachedStr \<Rightarrow>
          if \<not> truthy_blob (Some cachedStr) then Inr None
          else (case JSON_parse cachedStr of
                  Inl e \<Rightarrow> Inl e
                | Inr entry \<Rightarrow>
                    (case get_prop entry ''data'' of
                       Inl e \<Rightarrow> Inl e
                     | Inr d \<Rightarrow> Inr (Some d))))"

text \<open>Step 5, line 165: \<^verbatim>\<open>fallbackData || null\<close>.\<close>

definition fallback_or_null :: "json option \<Rightarrow> json option" where
  "fallback_or_null fallbackData = (if truthy fallbackData then fallbackData else Some JNull)"

text \<open>
  \<^verbatim>\<open>safeFetch(key, url, ttlSeconds, fallbackData)\<close>; an omitted \<^verbatim>\<open>fallbackData\<close> is \<open>None\<close>.
  The result is the resolved value of the promise (\<open>None\<close> is \<^verbatim>\<open>undefined\<close>, \<open>Some JNull\<close>
  is \<^verbatim>\<open>null\<close>) with the world left behind.
\<close>

definition safeFetch ::
  "js_env \<Rightarrow> string \<Rightarrow> string \<Rightarrow> real \<Rightarrow> json option \<Rightarrow> world \<Rightarrow> js_error + (json option \<times> world)" where
  "safeFetch env key url ttlSeconds fallbackData w =
     (let cacheKey = CACHE_PREFIX @ key in
      case try_catch (cache_read_try env w cacheKey ttlSeconds) (\<lambda>e. Inr None) of
        Inl e \<Rightarrow> Inl e
      | Inr (Some d) \<Rightarrow> Inr (d, w)
      | Inr None \<Rightarrow>
          (let w1 = w\<lparr>fetched := fetched w @ [url]\<rparr> in
           try_catch (network_try env w1 cacheKey url)
             (\<lambda>error.
                case try_catch (stale_read_try w1 cacheKey) (\<lambda>e. Inr None) of
                  Inl e \<Rightarrow> Inl e
                | Inr (Some d) \<Rightarrow> Inr (d, w1)
                | Inr None \<Rightarrow> Inr (fallback_or_null fallbackData, w1))))"

text \<open>
  The request of step 2 fails when lines 135-140 throw: \<^verbatim>\<open>fetch\<close> rejects (network error,
  or the abort of the 8 second timer), the status is not 2xx, or \<^verbatim>\<open>res.json()\<close> cannot parse
  the body.
\<close>

definition request_fails :: "js_env \<Rightarrow> string \<Rightarrow> bool" where
  "request_fails env url =
     (case fetch env url of
        Rejected e \<Rightarrow> True
      | Response status body \<Rightarrow>
          \<not> ok status \<or> (case JSON_parse body of Inl e \<Rightarrow> True | Inr d \<Rightarrow> False))"

section \<open>The typed configuration (src/types.ts) and its run-time objects\<close>

text \<open>
  The interfaces of types.ts as records (field names carry the interface as a prefix), and
  for each the object a value of the interface is at run time: properties in the order of
  the interface, an optional property present only when it has a value. A \<^verbatim>\<open>number\<close> field
  may hold \<^verbatim>\<open>NaN\<close> or an infinity; the \<^verbatim>\<open>settings\<close> of a widget, of type \<^verbatim>\<open>any\<close>, are taken
  to be plain data.
\<close>

datatype AnnouncementType = TextAnnouncement | ImageAnnouncement

datatype Priority = Low | Normal | High

datatype PageType = Standard | Grid

datatype WidgetType =
  Clock | Weather | Announcements | Events | Nasa | Quote | News | TextWidget | ImageWidget | CustomApi

record Theme =
  theme_id :: string
  theme_name :: string
  theme_gradientStart :: string
  theme_gradientEnd :: string
  theme_accentColor :: string
  theme_textColor :: string
  theme_logoUrl :: "string option"

record Announcement =
  announcement_id :: string
  announcement_type :: AnnouncementType
  announcement_title :: string
  announcement_content :: string
  announcement_imageUrl :: "string option"
  announcement_active :: bool
  announcement_priority :: Priority

record CategoryDefinition =
  category_id :: string
  category_name :: string
  category_icon :: string

record Event =
  event_id :: string
  event_title :: string
  event_time :: string
  event_location :: string
  event_date :: string
  event_category :: string

record WidgetConfig =
  widget_id :: string
  widget_type :: WidgetType
  widget_title :: "string option"
  widget_refreshSeconds :: number
  widget_settings :: "js_data option"

record GridItemConfig =
  grid_i :: string
  grid_x :: number
  grid_y :: number
  grid_w :: number
  grid_h :: number

record CustomWidgetDefinition =
  custom_id :: string
  custom_name :: string
  custom_endpoint :: string
  custom_jsonPath :: string
  custom_refreshSeconds :: number
  custom_prefix :: "string option"
  custom_suffix :: "string option"

record Page =
  page_id :: string
  page_title :: string
  page_type :: PageType
  page_content :: "string option"
  page_imageUrl :: "string option"
  page_layout :: "GridItemConfig list option"
  page_widgets :: "(string \<times> WidgetConfig) list option"
  page_duration :: "number option"
  page_enabled :: "bool option"

record WeatherConfig =
  weather_city :: string
  weather_lat :: number
  weather_lon :: number

record Socials =
  socials_phone :: string
  socials_website :: string
  socials_instagram :: string
  socials_twitter :: string

record EmergencyAlert =
  emergency_active :: bool
  emergency_message :: string
  emergency_timestamp :: number
  emergency_includeSiren :: bool
  emergency_audioData :: "string option"

record AppData =
  schoolName :: string
  theme :: Theme
  announcements :: "Announcement list"
  events :: "Event list"
  eventCategories :: "CategoryDefinition list"
  tickerItems :: "string list"
  liveCamUrls :: "string list"
  enableLiveCam :: bool
  pageDuration :: number
  pages :: "Page list"
  socials :: Socials
  emergency :: EmergencyAlert
  weatherConfig :: WeatherConfig
  customWidgets :: "CustomWidgetDefinition list"
  isSafeMode :: "bool option"

fun optional :: "string \<Rightarrow> ('a \<Rightarrow> js_data) \<Rightarrow> 'a option \<Rightarrow> (string \<times> js_data) list" where
  "optional k f None = []"
| "optional k f (Some v) = [(k, f v)]"

fun AnnouncementType_js :: "AnnouncementType \<Rightarrow> js_data" where
  "AnnouncementType_js TextAnnouncement = VStr ''text''"
| "AnnouncementType_js ImageAnnouncement = VStr ''image''"

fun Priority_js :: "Priority \<Rightarrow> js_data" where
  "Priority_js Low = VStr ''low''"
| "Priority_js Normal = VStr ''normal''"
| "Priority_js High = VStr ''high''"

fun PageType_js :: "PageType \<Rightarrow> js_data" where
  "PageType_js Standard = VStr ''standard''"
| "PageType_js Grid = VStr ''grid''"

fun WidgetType_js :: "WidgetType \<Rightarrow> js_data" where
  "WidgetType_js Clock = VStr ''clock''"
| "WidgetType_js Weather = VStr ''weather''"
| "WidgetType_js Announcements = VStr ''announcements''"
| "WidgetType_js Events = VStr ''events''"
| "WidgetType_js Nasa = VStr ''nasa''"
| "WidgetType_js Quote = VStr ''quote''"
| "WidgetType_js News = VStr ''news''"
| "WidgetType_js TextWidget = VStr ''text''"
| "WidgetType_js ImageWidget = VStr ''image''"
| "WidgetType_js CustomApi = VStr ''custom_api''"

definition Theme_js :: "Theme \<Rightarrow> js_data" where
  "Theme_js t = VObj
     ([(''id'', VStr (theme_id t)),
       (''name'', VStr (theme_name t)),
       (''gradientStart'', VStr (theme_gradientStart t)),
       (''gradientEnd'', VStr (theme_gradientEnd t)),
       (''accentColor'', VStr (theme_accentColor t)),
       (''textColor'', VStr (theme_textColor t))]
      @ optional ''logoUrl'' VStr (theme_logoUrl t))"

definition Announcement_js :: "Announcement \<Rightarrow> js_data" where
  "Announcement_js a = VObj
     ([(''id'', VStr (announcement_id a)),
       (''type'', AnnouncementType_js (announcement_type a)),
       (''title'', VStr (announcement_title a)),
       (''content'', VStr (announcement_content a))]
      @ optional ''imageUrl'' VStr (announcement_imageUrl a)
      @ [(''active'', VBool (announcement_active a)),
         (''priority'', Priority_js (announcement_priority a))])"

definition CategoryDefinition_js :: "CategoryDefinition \<Rightarrow> js_data" where
  "CategoryDefinition_js c = VObj
     [(''id'', VStr (category_id c)),
      (''name'', VStr (category_name c)),
      (''icon'', VStr (category_icon c))]"

definition Event_js :: "Event \<Rightarrow> js_data" where
  "Event_js e = VObj
     [(''id'', VStr (event_id e)),
      (''title'', VStr (event_title e)),
      (''time'', VStr (event_time e)),
      (''location'', VStr (event_location e)),
      (''date'', VStr (event_date e)),
      (''category'', VStr (event_category e))]"

definition WidgetConfig_js :: "WidgetConfig \<Rightarrow> js_data" where
  "WidgetConfig_js c = VObj
     ([(''id'', VStr (widget_id c)),
       (''type'', WidgetType_js (widget_type c))]
      @ optional ''title'' VStr (widget_title c)
      @ [(''refreshSeconds'', VNum (widget_refreshSeconds c))]
      @ optional ''settings'' (\<lambda>v. v) (widget_settings c))"

definition GridItemConfig_js :: "GridItemConfig \<Rightarrow> js_data" where
  "GridItemConfig_js g = VObj
     [(''i'', VStr (grid_i g)),
      (''x'', VNum (grid_x g)),
      (''y'', VNum (grid_y g)),
      (''w'', VNum (grid_w g)),
      (''h'', VNum (grid_h g))]"

definition CustomWidgetDefinition_js :: "CustomWidgetDefinition \<Rightarrow> js_data" where
  "CustomWidgetDefinition_js c = VObj
     ([(''id'', VStr (custom_id c)),
       (''name'', VStr (custom_name c)),
       (''endpoint'', VStr (custom_endpoint c)),
       (''jsonPath'', VStr (custom_jsonPath c)),
       (''refreshSeconds'', VNum (custom_refreshSeconds c))]
      @ optional ''prefix'' VStr (custom_prefix c)
      @ optional ''suffix'' VStr (custom_suffix c))"

definition widgets_js :: "(string \<times> WidgetConfig) list \<Rightarrow> js_data" where
  "widgets_js ws = VObj (map (\<lambda>kv. (fst kv, WidgetConfig_js (snd kv))) ws)"

definition Page_props :: "Page \<Rightarrow> (string \<times> js_data) list" where
  "Page_props p =
     [(''id'', VStr (page_id p)),
      (''title'', VStr (page_title p)),
      (''type'', PageType_js (page_type p))]
     @ optional ''content'' VStr (page_content p)
     @ optional ''imageUrl'' VStr (page_imageUrl p)
     @ optional ''layout'' (\<lambda>gs. VArr (map GridItemConfig_js gs)) (page_layout p)
     @ optional ''widgets'' widgets_js (page_widgets p)
     @ optional ''duration'' VNum (page_duration p)
     @ optional ''enabled'' VBool (page_enabled p)"

definition Page_js :: "Page \<Rightarrow> js_data" where
  "Page_js p = VObj (Page_props p)"

definition WeatherConfig_js :: "WeatherConfig \<Rightarrow> js_data" where
  "WeatherConfig_js c = VObj
     [(''city'', VStr (weather_city c)),
      (''lat'', VNum (weather_lat c)),
      (''lon'', VNum (weather_lon c))]"

definition Socials_js :: "Socials \<Rightarrow> js_data" where
  "Socials_js s = VObj
     [(''phone'', VStr (socials_phone s)),
      (''website'', VStr (socials_website s)),
      (''instagram'', VStr (socials_instagram s)),
      (''twitter'', VStr (socials_twitter s))]"

definition EmergencyAlert_js :: "EmergencyAlert \<Rightarrow> js_data" where
  "EmergencyAlert_js e = VObj
     ([(''active'', VBool (emergency_active e)),
       (''message'', VStr (emergency_message e)),
       (''timestamp'', VNum (emergency_timestamp e)),
       (''includeSiren'', VBool (emergency_includeSiren e))]
      @ optional ''audioData'' VStr (emergency_audioData e))"

definition AppData_props :: "AppData \<Rightarrow> (string \<times> js_data) list" where
  "AppData_props c =
     [(''schoolName'', VStr (schoolName c)),
      (''theme'', Theme_js (theme c)),
      (''announcements'', VArr (map Announcement_js (announcements c))),
      (''events'', VArr (map Event_js (events c))),
      (''eventCategories'', VArr (map CategoryDefinition_js (eventCategories c))),
      (''tickerItems'', VArr (map VStr (tickerItems c))),
      (''liveCamUrls'', VArr (map VStr (liveCamUrls c))),
      (''enableLiveCam'', VBool (enableLiveCam c)),
      (''pageDuration'', VNum (pageDuration c)),
      (''pages'', VArr (map Page_js (pages c))),
      (''socials'', Socials_js (socials c)),
      (''emergency'', EmergencyAlert_js (emergency c)),
      (''weatherConfig'', WeatherConfig_js (weatherConfig c)),
      (''customWidgets'', VArr (map CustomWidgetDefinition_js (customWidgets c)))]
     @ optional ''isSafeMode'' VBool (isSafeMode c)"

definition AppData_js :: "AppData \<Rightarrow> js_data" where
  "AppData_js c = VObj (AppData_props c)"

text \<open>The properties of the object that \<^verbatim>\<open>JSON.parse\<close> gives back for a saved \<open>c\<close>.\<close>

definition stored_props :: "AppData \<Rightarrow> (string \<times> json) list" where
  "stored_props c = map (map_prod id to_json) (AppData_props (c\<lparr>isSafeMode := None\<rparr>))"

section \<open>Concrete hosts, worlds and configurations\<close>

text \<open>A host whose network answers every request with HTTP 500.\<close>

definition env0 :: js_env where
  "env0 =
     \<lparr>Date_now = 1700000000000,
      random_id = ''k3x9q2m1z'',
      event1_date = ''2024-01-01T00:00:00.000Z'',
      event2_date = ''2024-01-01T00:00:00.000Z'',
      event3_date = ''2024-01-01T00:00:00.000Z'',
      engine_message = (\<lambda>e. ''engine error''),
      engine_stack = (\<lambda>e. None),
      ToNumber = (\<lambda>v. Inr None),
      fetch = (\<lambda>url. Response 500 EmptyText)\<rparr>"

text \<open>An empty working medium, and a world holding one blob on a working medium.\<close>

definition world0 :: world where
  "world0 = \<lparr>localStorage = [], failing = [], memoryStorage = [], dispatched = [], fetched = []\<rparr>"

definition world_with :: "string \<Rightarrow> blob \<Rightarrow> world" where
  "world_with key b = world0\<lparr>localStorage := [(key, b)]\<rparr>"

text \<open>A medium that rejects every operation.\<close>

definition blocked_world :: world where
  "blocked_world = world0\<lparr>failing := [GetItem, SetItem, RemoveItem, Clear]\<rparr>"

text \<open>
  A working medium beside a fallback object that still holds a value from an earlier failed
  write, and the same fallback object behind a medium that rejects every operation.
\<close>

definition leftover_world :: world where
  "leftover_world = world0\<lparr>memoryStorage := [(''admin_session'', JsonText (JStr ''s1''))]\<rparr>"

definition leftover_blocked_world :: world where
  "leftover_blocked_world = leftover_world\<lparr>failing := [GetItem, SetItem, RemoveItem, Clear]\<rparr>"

text \<open>A medium that rejects every operation while it still holds a stored configuration.\<close>

definition stranded_world :: world where
  "stranded_world = blocked_world\<lparr>localStorage := [(''HARDY_SIGNAGE_DATA'', JsonText (JObj []))]\<rparr>"

definition sample_config :: AppData where
  "sample_config =
     \<lparr>schoolName = ''Nova'',
      theme = \<lparr>theme_id = ''t1'', theme_name = ''Plain'', theme_gradientStart = ''#000000'',
               theme_gradientEnd = ''#111111'', theme_accentColor = ''#222222'',
               theme_textColor = ''#ffffff'', theme_logoUrl = None\<rparr>,
      announcements = [],
      events = [],
      eventCategories = [],
      tickerItems = [''Welcome''],
      liveCamUrls = [],
      enableLiveCam = False,
      pageDuration = Finite 0,
      pages = [\<lparr>page_id = ''p1'', page_title = ''Home'', page_type = Grid, page_content = None,
                page_imageUrl = None, page_layout = None, page_widgets = None,
                page_duration = None, page_enabled = Some False\<rparr>],
      socials = \<lparr>socials_phone = [], socials_website = [], socials_instagram = [],
                 socials_twitter = []\<rparr>,
      emergency = \<lparr>emergency_active = False, emergency_message = [], emergency_timestamp = Finite 0,
                   emergency_includeSiren = False, emergency_audioData = None\<rparr>,
      weatherConfig = \<lparr>weather_city = ''Far Rockaway'', weather_lat = Finite 40.609,
                       weather_lon = Finite (- 73.763)\<rparr>,
      customWidgets = [],
      isSafeMode = Some True\<rparr>"

text \<open>The same configuration after the administrator has blanked the school name.\<close>

definition blank_name_config :: AppData where
  "blank_name_config = sample_config\<lparr>schoolName := []\<rparr>"

text \<open>The same configuration with a page duration that is not a number.\<close>

definition nan_duration_config :: AppData where
  "nan_duration_config = sample_config\<lparr>pageDuration := NaN\<rparr>"

text \<open>A stored configuration with no pages at all, and one without the \<^verbatim>\<open>pages\<close> key.\<close>

definition no_pages_stored :: "(string \<times> json) list" where
  "no_pages_stored = [(''pages'', JArr []), (''theme'', JObj []), (''schoolName'', JStr ''Nova'')]"

definition pages_absent_stored :: "(string \<times> json) list" where
  "pages_absent_stored = [(''theme'', JObj []), (''schoolName'', JStr ''Nova'')]"

text \<open>Sixty log entries, numbered by their timestamps.\<close>

definition sixty_entries :: "(js_env \<times> (string \<times> json) list) list" where
  "sixty_entries =
     map (\<lambda>n. (env0\<lparr>Date_now := real n\<rparr>, [(''level'', JStr ''info'')])) [0..<60]"

definition entries_of :: "(js_env \<times> (string \<times> json) list) list \<Rightarrow> json list" where
  "entries_of cs = map (\<lambda>c. newLog (fst c) (snd c)) cs"

text \<open>A cache entry written 100 seconds before the clock of \<open>env0\<close>, and one written 400 seconds before.\<close>

definition fresh_entry :: CacheEntry where
  "fresh_entry = \<lparr>data = JStr ''sunny'', timestamp = 1700000000000 - 100000\<rparr>"

definition expired_entry :: CacheEntry where
  "expired_entry = \<lparr>data = JStr ''rainy'', timestamp = 1700000000000 - 400000\<rparr>"

section \<open>Properties of \<^verbatim>\<open>safeStorage\<close>\<close>

lemma failing_setItem: "failing (setItem w k v) = failing w"
  by (simp add: setItem_def localStorage_setItem_def)

lemma failing_dispatchEvent: "failing (dispatchEvent ty w) = failing w"
  by (simp add: dispatchEvent_def)

lemma getItem_dispatchEvent: "getItem (dispatchEvent ty w) k = getItem w k"
  by (simp add: getItem_def localStorage_getItem_def throws_def dispatchEvent_def)

lemma truthy_blob_iff: "truthy_blob b \<longleftrightarrow> (\<exists>v. b = Some v \<and> v \<noteq> EmptyText)"
  by (cases b rule: truthy_blob.cases) simp_all

lemma getItem_setItem_same:
  "throws w GetItem = throws w SetItem \<Longrightarrow> v \<noteq> EmptyText \<Longrightarrow> k \<noteq> ''__proto__''
   \<Longrightarrow> getItem (setItem w k v) k = Some v"
  by (simp add: getItem_def setItem_def localStorage_getItem_def localStorage_setItem_def
      throws_def memory_read_def memory_write_def update_conv' truthy_blob_iff)

lemma service_keys_not_proto:
  "STORAGE_KEY \<noteq> ''__proto__''" "LOG_STORAGE_KEY \<noteq> ''__proto__''"
  by (simp_all add: STORAGE_KEY_def LOG_STORAGE_KEY_def)

lemma clear_blocked:
  "throws w Clear \<Longrightarrow> memoryStorage (clear w) = [] \<and> localStorage (clear w) = localStorage w"
  by (simp add: clear_def localStorage_clear_def)

lemma getItem_clear_blocked:
  "throws w Clear \<Longrightarrow> throws w GetItem \<Longrightarrow> k \<notin> set Object_prototype_members
   \<Longrightarrow> getItem (clear w) k = None"
  by (simp add: getItem_def clear_def localStorage_clear_def localStorage_getItem_def throws_def
      memory_read_def)

section \<open>Properties of the system log\<close>

lemma addLog_total: "\<exists>w'. addLog env entry w = Inr w'"
  by (simp add: addLog_def try_catch_def split: sum.splits)

lemma getLogs_stored:
  "getItem w LOG_STORAGE_KEY = Some (JsonText v) \<Longrightarrow> getLogs w = Inr v"
  by (simp add: getLogs_def getLogs_try_def try_catch_def)

lemma addLog_array:
  assumes "getLogs w = Inr (JArr old)"
  shows "addLog env entry w =
     Inr (dispatchEvent ''hardy-log-update''
            (setItem w LOG_STORAGE_KEY
               (JSON_stringify (JArr (take MAX_LOGS (newLog env entry # old))))))"
  using assms by (simp add: addLog_def addLog_try_def try_catch_def Let_def)

lemma getLogs_addLog:
  assumes "throws w GetItem = throws w SetItem" and "getLogs w = Inr (JArr old)"
    and "addLog env entry w = Inr w'"
  shows "getLogs w' = Inr (JArr (take MAX_LOGS (newLog env entry # old)))"
    and "failing w' = failing w"
  using assms
  by (auto simp: addLog_array getLogs_stored getItem_dispatchEvent getItem_setItem_same
      service_keys_not_proto JSON_stringify_def failing_dispatchEvent failing_setItem)

lemma take_append_take: "take n (xs @ take n ys) = take n (xs @ ys)"
  by (simp add: min_def)

lemma addLogs_result:
  assumes "throws w GetItem = throws w SetItem" and "getLogs w = Inr (JArr old)"
  shows "\<exists>w'. addLogs cs w = Inr w' \<and> failing w' = failing w \<and>
     getLogs w' = Inr (JArr (if cs = [] then old else take MAX_LOGS (rev (entries_of cs) @ old)))"
  using assms
proof (induction cs arbitrary: w old)
  case Nil
  then show ?case by simp
next
  case (Cons c cs)
  obtain w1 where w1: "addLog (fst c) (snd c) w = Inr w1"
    using addLog_total by blast
  let ?old1 = "take MAX_LOGS (newLog (fst c) (snd c) # old)"
  have l1: "getLogs w1 = Inr (JArr ?old1)" and f1: "failing w1 = failing w"
    using getLogs_addLog [OF Cons.prems(1,2) w1] by simp_all
  have s1: "throws w1 GetItem = throws w1 SetItem"
    using Cons.prems(1) f1 by (simp add: throws_def)
  from Cons.IH [OF s1 l1] obtain w' where
    w': "addLogs cs w1 = Inr w'" "failing w' = failing w1"
      "getLogs w' = Inr (JArr (if cs = [] then ?old1 else take MAX_LOGS (rev (entries_of cs) @ ?old1)))"
    by blast
  have "(if cs = [] then ?old1 else take MAX_LOGS (rev (entries_of cs) @ ?old1))
      = take MAX_LOGS (rev (entries_of (c # cs)) @ old)"
    by (simp add: take_append_take entries_of_def)
  with w' w1 f1 show ?case by simp
qed

section \<open>Properties of the migrations\<close>

lemma map_of_default_if_falsy:
  "map_of (default_if_falsy k d kvs) k' =
     (if k' = k \<and> \<not> truthy (map_of kvs k) then Some d else map_of kvs k')"
  by (simp add: default_if_falsy_def update_conv')

lemma map_of_default_if_undefined:
  "map_of (default_if_undefined k d kvs) k' =
     (if k' = k \<and> map_of kvs k = None then Some d else map_of kvs k')"
  by (simp add: default_if_undefined_def update_conv')

lemma map_of_migrate_liveCamUrls:
  "k' \<noteq> ''liveCamUrls'' \<Longrightarrow> map_of (migrate_liveCamUrls kvs) k' = map_of kvs k'"
  by (simp add: migrate_liveCamUrls_def update_conv' split: option.splits)

lemma map_of_delete: "map_of (AList.delete k kvs) k' = (if k' = k then None else map_of kvs k')"
  by (simp add: delete_conv')

lemma Array_map_array: "Array_map f v = Inr r \<Longrightarrow> \<exists>xs ys. v = JArr xs \<and> r = JArr ys \<and> map_err f xs = Inr ys"
  by (cases v) (auto split: sum.splits)

lemma migrate_pages_result:
  assumes "migrate_pages kvs = Inr kvs'"
  shows "\<exists>v. kvs' = AList.update ''pages'' v kvs \<and> truthy (Some v)"
  using assms
  by (auto simp: migrate_pages_def DEFAULT_pages_def split: option.splits if_splits sum.splits
      dest!: Array_map_array)

lemma migrate_pages_empty:
  "map_of kvs ''pages'' = Some (JArr []) \<Longrightarrow> migrate_pages kvs = Inr (AList.update ''pages'' (JArr []) kvs)"
  by (simp add: migrate_pages_def)

lemmas map_of_steps = map_of_default_if_falsy map_of_default_if_undefined
  map_of_migrate_liveCamUrls map_of_delete update_conv'

lemma map_of_migrate_head:
  "k \<notin> {''theme'', ''tickerItems'', ''enableLiveCam'', ''pageDuration'', ''liveCamUrls'',
         ''liveCamUrl'', ''homeLayout'', ''homeWidgets''}
   \<Longrightarrow> map_of (migrate_head kvs) k = map_of kvs k"
  by (simp add: migrate_head_def Let_def map_of_steps)

lemma map_of_migrate_head_theme:
  "truthy (map_of kvs ''theme'') \<Longrightarrow> map_of (migrate_head kvs) ''theme'' = map_of kvs ''theme''"
  by (simp add: migrate_head_def Let_def map_of_steps)

lemma map_of_migrate_tail:
  "k \<notin> {''socials'', ''emergency'', ''weatherConfig'', ''eventCategories'', ''customWidgets'',
         ''isSafeMode''}
   \<Longrightarrow> map_of (migrate_tail kvs) k = map_of kvs k"
  by (simp add: migrate_tail_def Let_def map_of_steps)

lemma map_of_migrate_tail_isSafeMode:
  "map_of (migrate_tail kvs) ''isSafeMode'' = Some (JBool False)"
  by (simp add: migrate_tail_def Let_def map_of_steps)

lemma migrate_result:
  assumes "migrate kvs = Inr cfg" and "\<not> critical_missing kvs"
  shows "\<exists>kvs'. cfg = JObj kvs' \<and> \<not> critical_missing kvs'
     \<and> map_of kvs' ''isSafeMode'' = Some (JBool False)
     \<and> map_of kvs' ''schoolName'' = map_of kvs ''schoolName''
     \<and> map_of kvs' ''theme'' = map_of kvs ''theme''"
proof -
  from assms(1) obtain kvs9 where p: "migrate_pages (migrate_head kvs) = Inr kvs9"
    and c: "cfg = JObj (migrate_tail kvs9)"
    by (auto simp: migrate_def split: sum.splits)
  from migrate_pages_result [OF p] obtain v where
    v: "kvs9 = AList.update ''pages'' v (migrate_head kvs)" and t: "truthy (Some v)" by blast
  have th: "truthy (map_of kvs ''theme'')" and sn: "truthy (map_of kvs ''schoolName'')"
    using assms(2) by (simp_all add: critical_missing_def)
  have 1: "map_of (migrate_tail kvs9) ''pages'' = Some v"
    by (simp add: map_of_migrate_tail v update_conv')
  have 2: "map_of (migrate_tail kvs9) ''theme'' = map_of kvs ''theme''"
    by (simp add: map_of_migrate_tail v update_conv' map_of_migrate_head_theme th)
  have 3: "map_of (migrate_tail kvs9) ''schoolName'' = map_of kvs ''schoolName''"
    by (simp add: map_of_migrate_tail v update_conv' map_of_migrate_head)
  show ?thesis
    using c 1 2 3 t th sn by (simp add: critical_missing_def map_of_migrate_tail_isSafeMode)
qed

section \<open>Properties of \<^verbatim>\<open>getStoredData\<close>\<close>

lemma DEFAULT_DATA_critical: "\<not> critical_missing (DEFAULT_DATA env)"
  by (simp add: critical_missing_def DEFAULT_DATA_def DEFAULT_pages_def DEFAULT_theme_def)

lemma DEFAULT_DATA_isSafeMode: "map_of (DEFAULT_DATA env) ''isSafeMode'' = Some (JBool False)"
  by (simp add: DEFAULT_DATA_def)

lemma safe_mode_critical:
  "\<not> critical_missing (AList.update ''isSafeMode'' (JBool True) (DEFAULT_DATA env))"
  using DEFAULT_DATA_critical [of env] by (simp add: critical_missing_def update_conv')

lemma getStoredData_cases:
  "getStoredData env w =
     (case getStoredData_try env w of
        Inr config \<Rightarrow> Inr (config, w)
      | Inl error \<Rightarrow>
          (case addLog env (failure_entry env error) w of
             Inl e \<Rightarrow> Inl e
           | Inr w' \<Rightarrow> Inr (safe_mode_defaults env, w')))"
  by (simp add: getStoredData_def try_catch_def split: sum.splits)

lemma check_and_migrate_result:
  assumes "check_and_migrate parsed = Inr cfg"
  shows "\<exists>kvs kvs'. parsed = JObj kvs \<and> \<not> critical_missing kvs \<and> cfg = JObj kvs' \<and> \<not> critical_missing kvs'
     \<and> map_of kvs' ''isSafeMode'' = Some (JBool False)"
proof (cases parsed)
  case (JObj kvs)
  with assms have n: "\<not> critical_missing kvs" and m: "migrate kvs = Inr cfg"
    by (auto split: if_splits)
  from migrate_result [OF m n] JObj n show ?thesis by blast
qed (use assms in \<open>simp_all add: incomplete_def\<close>)

lemma getStoredData_try_result:
  assumes "getStoredData_try env w = Inr cfg"
  shows "\<exists>kvs. cfg = JObj kvs \<and> \<not> critical_missing kvs \<and> map_of kvs ''isSafeMode'' = Some (JBool False)"
proof (cases "getItem w STORAGE_KEY")
  case None
  with assms show ?thesis
    by (auto simp: getStoredData_try_def DEFAULT_DATA_critical DEFAULT_DATA_isSafeMode)
next
  case (Some stored)
  show ?thesis
  proof (cases "truthy_blob (Some stored)")
    case False
    with Some assms show ?thesis
      by (auto simp: getStoredData_try_def DEFAULT_DATA_critical DEFAULT_DATA_isSafeMode)
  next
    case True
    with Some assms obtain parsed where "check_and_migrate parsed = Inr cfg"
      by (auto simp: getStoredData_try_def split: sum.splits)
    from check_and_migrate_result [OF this] show ?thesis by blast
  qed
qed

lemma getStoredData_usable:
  "\<exists>kvs w'. getStoredData env w = Inr (JObj kvs, w') \<and> \<not> critical_missing kvs
     \<and> (\<exists>b. map_of kvs ''isSafeMode'' = Some (JBool b))"
proof (cases "getStoredData_try env w")
  case (Inr cfg)
  from getStoredData_try_result [OF Inr] Inr show ?thesis
    by (auto simp: getStoredData_cases)
next
  case (Inl error)
  obtain w' where "addLog env (failure_entry env error) w = Inr w'"
    using addLog_total by blast
  with Inl show ?thesis
    by (auto simp: getStoredData_cases safe_mode_defaults_def safe_mode_critical update_conv')
qed

lemma getStoredData_failure:
  assumes "getStoredData_try env w = Inl error"
    and "throws w GetItem = throws w SetItem" and "getLogs w = Inr (JArr old)"
  shows "\<exists>w'. getStoredData env w = Inr (safe_mode_defaults env, w')
     \<and> getLogs w' = Inr (JArr (take MAX_LOGS (newLog env (failure_entry env error) # old)))"
proof -
  obtain w' where a: "addLog env (failure_entry env error) w = Inr w'"
    using addLog_total by blast
  from getLogs_addLog(1) [OF assms(2,3) a] a assms(1) show ?thesis
    by (simp add: getStoredData_cases)
qed

section \<open>Properties of \<^verbatim>\<open>safeFetch\<close>\<close>

lemma cache_read_fresh:
  assumes "getItem w ck = Some (JSON_stringify (CacheEntry_js entry))"
    and "Date_now env - timestamp entry < ttl * 1000"
  shows "cache_read_try env w ck ttl = Inr (Some (Some (data entry)))"
  using assms by (simp add: cache_read_try_def JSON_stringify_def CacheEntry_js_def)

lemma cache_read_expired:
  assumes "getItem w ck = Some (JSON_stringify (CacheEntry_js entry))"
    and "\<not> Date_now env - timestamp entry < ttl * 1000"
  shows "cache_read_try env w ck ttl = Inr None"
  using assms by (simp add: cache_read_try_def JSON_stringify_def CacheEntry_js_def)

lemma cache_read_absent:
  "getItem w ck = None \<Longrightarrow> cache_read_try env w ck ttl = Inr None"
  by (simp add: cache_read_try_def)

lemma stale_read_entry:
  assumes "getItem w ck = Some (JSON_stringify (CacheEntry_js entry))"
  shows "stale_read_try w ck = Inr (Some (Some (data entry)))"
  using assms by (simp add: stale_read_try_def JSON_stringify_def CacheEntry_js_def)

lemma stale_read_absent: "getItem w ck = None \<Longrightarrow> stale_read_try w ck = Inr None"
  by (simp add: stale_read_try_def)

lemma getItem_fetched: "getItem (w\<lparr>fetched := us\<rparr>) k = getItem w k"
  by (simp add: getItem_def localStorage_getItem_def throws_def)

lemma network_try_fails:
  "request_fails env url \<longleftrightarrow> (\<exists>e. network_try env w ck url = Inl e)"
  by (auto simp: request_fails_def network_try_def split: fetch_outcome.splits sum.splits)

lemma safeFetch_fresh:
  assumes "getItem w (CACHE_PREFIX @ key) = Some (JSON_stringify (CacheEntry_js entry))"
    and "Date_now env - timestamp entry < ttlSeconds * 1000"
  shows "safeFetch env key url ttlSeconds fallbackData w = Inr (Some (data entry), w)"
  by (simp add: safeFetch_def Let_def try_catch_def cache_read_fresh [OF assms])

lemma safeFetch_stale:
  assumes "getItem w (CACHE_PREFIX @ key) = Some (JSON_stringify (CacheEntry_js entry))"
    and "\<not> Date_now env - timestamp entry < ttlSeconds * 1000"
    and "request_fails env url"
  shows "safeFetch env key url ttlSeconds fallbackData w
     = Inr (Some (data entry), w\<lparr>fetched := fetched w @ [url]\<rparr>)"
proof -
  obtain e where "network_try env (w\<lparr>fetched := fetched w @ [url]\<rparr>) (CACHE_PREFIX @ key) url = Inl e"
    using assms(3) network_try_fails by blast
  moreover have "stale_read_try (w\<lparr>fetched := fetched w @ [url]\<rparr>) (CACHE_PREFIX @ key)
      = Inr (Some (Some (data entry)))"
    by (rule stale_read_entry) (simp add: getItem_fetched assms(1))
  ultimately show ?thesis
    by (simp add: safeFetch_def Let_def try_catch_def cache_read_expired [OF assms(1,2)])
qed

lemma safeFetch_fallback:
  assumes "getItem w (CACHE_PREFIX @ key) = None" and "request_fails env url"
  shows "safeFetch env key url ttlSeconds fallbackData w
     = Inr (fallback_or_null fallbackData, w\<lparr>fetched := fetched w @ [url]\<rparr>)"
proof -
  obtain e where "network_try env (w\<lparr>fetched := fetched w @ [url]\<rparr>) (CACHE_PREFIX @ key) url = Inl e"
    using assms(2) network_try_fails by blast
  moreover have "stale_read_try (w\<lparr>fetched := fetched w @ [url]\<rparr>) (CACHE_PREFIX @ key) = Inr None"
    by (rule stale_read_absent) (simp add: getItem_fetched assms(1))
  ultimately show ?thesis
    by (simp add: safeFetch_def Let_def try_catch_def cache_read_absent [OF assms(1)])
qed

lemma safeFetch_total: "\<exists>v w'. safeFetch env key url ttlSeconds fallbackData w = Inr (v, w')"
  by (auto simp: safeFetch_def Let_def try_catch_def split: sum.splits option.splits)

section \<open>Saving and loading a typed configuration\<close>

lemma of_json_to_json: "finite_numbers v \<Longrightarrow> of_json (to_json v) = v"
  by (induction v) (auto simp: list_all_iff split: number.splits intro!: map_idI)

lemma to_json_of_json: "to_json (of_json v) = v"
  by (induction v) (auto intro!: map_idI)

lemma finite_numbers_of_json: "finite_numbers (of_json v)"
  by (induction v) (auto simp: list_all_iff)

lemma JSON_stringify_data_of_json: "JSON_stringify_data (of_json v) = JSON_stringify v"
  by (simp add: JSON_stringify_data_def JSON_stringify_def to_json_of_json)

lemma map_of_to_json:
  "map_of (map (map_prod id to_json) kvs) k = map_option to_json (map_of kvs k)"
  by (induction kvs) auto

lemma delete_absent: "map_of kvs k = None \<Longrightarrow> AList.delete k kvs = kvs"
  by (induction kvs) (auto split: if_splits)

lemma update_absent: "map_of kvs k = None \<Longrightarrow> AList.update k v kvs = kvs @ [(k, v)]"
  by (induction kvs) (auto split: if_splits)

lemma default_if_falsy_id: "truthy (map_of kvs k) \<Longrightarrow> default_if_falsy k d kvs = kvs"
  by (simp add: default_if_falsy_def)

lemma default_if_undefined_id: "map_of kvs k = Some v \<Longrightarrow> default_if_undefined k d kvs = kvs"
  by (simp add: default_if_undefined_def)

lemma migrate_liveCamUrls_id: "truthy (map_of kvs ''liveCamUrls'') \<Longrightarrow> migrate_liveCamUrls kvs = kvs"
  by (simp add: migrate_liveCamUrls_def)

lemma PageType_js_truthy: "\<exists>s. to_json (PageType_js t) = JStr s \<and> s \<noteq> []"
  by (cases t) simp_all

lemma normalize_page_typed: "normalize_page (to_json (Page_js p)) = Inr (to_json (Page_js p))"
proof -
  obtain s where s: "to_json (PageType_js (page_type p)) = JStr s" "s \<noteq> []"
    using PageType_js_truthy by blast
  have "map_of (Page_props p) ''type'' = Some (PageType_js (page_type p))"
    by (simp add: Page_props_def)
  then have l: "map_of (map (map_prod id to_json) (Page_props p)) ''type'' = Some (JStr s)"
    by (simp add: map_of_to_json s)
  then show ?thesis
    using s(2) by (simp add: normalize_page_def Page_js_def update_triv)
qed

lemma map_err_normalize_typed:
  "map_err normalize_page (map (to_json \<circ> Page_js) ps) = Inr (map (to_json \<circ> Page_js) ps)"
  by (induction ps) (simp_all add: normalize_page_typed)

lemma props_split:
  "AppData_props c = AppData_props (c\<lparr>isSafeMode := None\<rparr>) @ optional ''isSafeMode'' VBool (isSafeMode c)"
  by (simp add: AppData_props_def)

lemma base_schoolName:
  "map_of (AppData_props (c\<lparr>isSafeMode := None\<rparr>)) ''schoolName'' = Some (VStr (schoolName c))"
  by (simp add: AppData_props_def)

lemma base_lookup:
  "map_of (AppData_props (c\<lparr>isSafeMode := None\<rparr>)) ''theme'' = Some (Theme_js (theme c))"
  "map_of (AppData_props (c\<lparr>isSafeMode := None\<rparr>)) ''tickerItems'' = Some (VArr (map VStr (tickerItems c)))"
  "map_of (AppData_props (c\<lparr>isSafeMode := None\<rparr>)) ''enableLiveCam'' = Some (VBool (enableLiveCam c))"
  "map_of (AppData_props (c\<lparr>isSafeMode := None\<rparr>)) ''pageDuration'' = Some (VNum (pageDuration c))"
  "map_of (AppData_props (c\<lparr>isSafeMode := None\<rparr>)) ''liveCamUrls'' = Some (VArr (map VStr (liveCamUrls c)))"
  "map_of (AppData_props (c\<lparr>isSafeMode := None\<rparr>)) ''pages'' = Some (VArr (map Page_js (pages c)))"
  "map_of (AppData_props (c\<lparr>isSafeMode := None\<rparr>)) ''socials'' = Some (Socials_js (socials c))"
  "map_of (AppData_props (c\<lparr>isSafeMode := None\<rparr>)) ''emergency'' = Some (EmergencyAlert_js (emergency c))"
  "map_of (AppData_props (c\<lparr>isSafeMode := None\<rparr>)) ''weatherConfig'' = Some (WeatherConfig_js (weatherConfig c))"
  "map_of (AppData_props (c\<lparr>isSafeMode := None\<rparr>)) ''eventCategories'' = Some (VArr (map CategoryDefinition_js (eventCategories c)))"
  "map_of (AppData_props (c\<lparr>isSafeMode := None\<rparr>)) ''customWidgets'' = Some (VArr (map CustomWidgetDefinition_js (customWidgets c)))"
  by (simp_all add: AppData_props_def)

lemma base_absent:
  "map_of (AppData_props (c\<lparr>isSafeMode := None\<rparr>)) ''liveCamUrl'' = None"
  "map_of (AppData_props (c\<lparr>isSafeMode := None\<rparr>)) ''homeLayout'' = None"
  "map_of (AppData_props (c\<lparr>isSafeMode := None\<rparr>)) ''homeWidgets'' = None"
  "map_of (AppData_props (c\<lparr>isSafeMode := None\<rparr>)) ''isSafeMode'' = None"
  by (simp_all add: AppData_props_def)

lemma stored_lookup:
  "map_of (stored_props c) k = map_option to_json (map_of (AppData_props (c\<lparr>isSafeMode := None\<rparr>)) k)"
  by (simp add: stored_props_def map_of_to_json)

lemma stored_truthy:
  "truthy (map_of (stored_props c) ''theme'')"
  "truthy (map_of (stored_props c) ''tickerItems'')"
  "truthy (map_of (stored_props c) ''liveCamUrls'')"
  "truthy (map_of (stored_props c) ''pages'')"
  "truthy (map_of (stored_props c) ''eventCategories'')"
  "truthy (map_of (stored_props c) ''customWidgets'')"
  by (simp_all add: stored_lookup base_lookup Theme_js_def)

lemma stored_present:
  "map_of (stored_props c) ''enableLiveCam'' = Some (JBool (enableLiveCam c))"
  "map_of (stored_props c) ''pageDuration'' = Some (to_json (VNum (pageDuration c)))"
  "map_of (stored_props c) ''socials'' = Some (to_json (Socials_js (socials c)))"
  "map_of (stored_props c) ''emergency'' = Some (to_json (EmergencyAlert_js (emergency c)))"
  "map_of (stored_props c) ''weatherConfig'' = Some (to_json (WeatherConfig_js (weatherConfig c)))"
  "map_of (stored_props c) ''pages'' = Some (JArr (map to_json (map Page_js (pages c))))"
  "map_of (stored_props c) ''schoolName'' = Some (JStr (schoolName c))"
  by (simp_all add: stored_lookup base_lookup base_schoolName)

lemma stored_absent:
  "map_of (stored_props c) ''liveCamUrl'' = None"
  "map_of (stored_props c) ''homeLayout'' = None"
  "map_of (stored_props c) ''homeWidgets'' = None"
  "map_of (stored_props c) ''isSafeMode'' = None"
  by (simp_all add: stored_lookup base_absent)

lemma delete_isSafeMode_typed:
  "AList.delete ''isSafeMode'' (AppData_props c) = AppData_props (c\<lparr>isSafeMode := None\<rparr>)"
proof -
  have "AList.delete ''isSafeMode'' (AppData_props (c\<lparr>isSafeMode := None\<rparr>))
      = AppData_props (c\<lparr>isSafeMode := None\<rparr>)"
    by (rule delete_absent) (rule base_absent)
  moreover have "AList.delete ''isSafeMode'' (optional ''isSafeMode'' VBool (isSafeMode c)) = []"
    by (cases "isSafeMode c") simp_all
  ultimately show ?thesis
    by (subst props_split) (simp add: AList.delete_eq)
qed

lemma to_json_typed:
  "to_json (AppData_js (c\<lparr>isSafeMode := Some False\<rparr>))
     = JObj (stored_props c @ [(''isSafeMode'', JBool False)])"
proof -
  have "AppData_props (c\<lparr>isSafeMode := Some False\<rparr>)
      = AppData_props (c\<lparr>isSafeMode := None\<rparr>) @ [(''isSafeMode'', VBool False)]"
    by (simp add: AppData_props_def)
  then show ?thesis by (simp add: AppData_js_def stored_props_def)
qed

lemma migrate_head_typed: "migrate_head (stored_props c) = stored_props c"
  by (simp add: migrate_head_def Let_def default_if_falsy_id default_if_undefined_id
      migrate_liveCamUrls_id delete_absent stored_truthy stored_present stored_absent)

lemma migrate_pages_typed: "migrate_pages (stored_props c) = Inr (stored_props c)"
  by (simp add: migrate_pages_def stored_present map_err_normalize_typed update_triv)

lemma migrate_tail_typed:
  "migrate_tail (stored_props c) = stored_props c @ [(''isSafeMode'', JBool False)]"
  by (simp add: migrate_tail_def Let_def default_if_falsy_id default_if_undefined_id
      update_absent stored_truthy stored_present stored_absent)

lemma critical_typed: "critical_missing (stored_props c) \<longleftrightarrow> schoolName c = []"
  by (simp add: critical_missing_def stored_truthy stored_present)

lemma check_and_migrate_typed:
  "schoolName c \<noteq> [] \<Longrightarrow>
   check_and_migrate (JObj (stored_props c)) = Inr (to_json (AppData_js (c\<lparr>isSafeMode := Some False\<rparr>)))"
  by (simp add: critical_typed migrate_def migrate_head_typed migrate_pages_typed
      migrate_tail_typed to_json_typed)

lemma check_and_migrate_blank:
  "schoolName c = [] \<Longrightarrow> check_and_migrate (JObj (stored_props c)) = Inl incomplete"
  by (simp add: critical_typed)

lemma saveStoredData_typed:
  "saveStoredData (AppData_js c) w =
     Inr (dispatchEvent ''hardy-storage-update''
            (setItem w STORAGE_KEY (JsonText (JObj (stored_props c)))))"
  by (simp add: saveStoredData_def saveStoredData_try_def try_catch_def AppData_js_def
      delete_isSafeMode_typed JSON_stringify_data_def stored_props_def)

lemma getItem_saved:
  assumes "throws w GetItem = throws w SetItem"
  shows "getItem (dispatchEvent ''hardy-storage-update''
            (setItem w STORAGE_KEY (JsonText (JObj (stored_props c))))) STORAGE_KEY
       = Some (JsonText (JObj (stored_props c)))"
  using assms by (simp add: getItem_dispatchEvent getItem_setItem_same service_keys_not_proto)

lemma round_trip:
  assumes "schoolName c \<noteq> []" and "throws w GetItem = throws w SetItem"
  shows "\<exists>w1. saveStoredData (AppData_js c) w = Inr w1
     \<and> getStoredData env w1 = Inr (to_json (AppData_js (c\<lparr>isSafeMode := Some False\<rparr>)), w1)"
proof -
  let ?w1 = "dispatchEvent ''hardy-storage-update''
       (setItem w STORAGE_KEY (JsonText (JObj (stored_props c))))"
  have "getStoredData_try env ?w1 = Inr (to_json (AppData_js (c\<lparr>isSafeMode := Some False\<rparr>)))"
    using check_and_migrate_typed [OF assms(1)] getItem_saved [OF assms(2), of c]
    by (simp add: getStoredData_try_def del: check_and_migrate.simps)
  then show ?thesis
    by (simp add: saveStoredData_typed getStoredData_cases)
qed

lemma blank_name_rejected:
  assumes "schoolName c = []" and "throws w GetItem = throws w SetItem"
  shows "returned (save_then_load env (AppData_js c) w) = Some (safe_mode_defaults env)"
proof -
  let ?w1 = "dispatchEvent ''hardy-storage-update''
       (setItem w STORAGE_KEY (JsonText (JObj (stored_props c))))"
  have "getStoredData_try env ?w1 = Inl incomplete"
    using check_and_migrate_blank [OF assms(1)] getItem_saved [OF assms(2), of c]
    by (simp add: getStoredData_try_def del: check_and_migrate.simps)
  moreover obtain w' where "addLog env (failure_entry env incomplete) ?w1 = Inr w'"
    using addLog_total by blast
  ultimately have "getStoredData env ?w1 = Inr (safe_mode_defaults env, w')"
    by (simp add: getStoredData_cases)
  then show ?thesis
    by (simp add: save_then_load_def returned_def saveStoredData_typed)
qed

lemma finite_numbers_typed:
  assumes "finite_numbers (AppData_js c)"
  shows "finite_numbers (AppData_js (c\<lparr>isSafeMode := Some False\<rparr>))"
proof -
  have "AppData_props (c\<lparr>isSafeMode := Some False\<rparr>)
      = AppData_props (c\<lparr>isSafeMode := None\<rparr>) @ [(''isSafeMode'', VBool False)]"
    by (simp add: AppData_props_def)
  moreover have "list_all (pred_prod (\<lambda>k. True) finite_numbers) (AppData_props (c\<lparr>isSafeMode := None\<rparr>))"
    using assms by (subst (asm) AppData_js_def, subst (asm) props_split) simp
  ultimately show ?thesis by (simp add: AppData_js_def)
qed

lemma get_prop_loaded:
  "get_prop (to_json (AppData_js (c\<lparr>isSafeMode := Some False\<rparr>))) ''isSafeMode''
     = Inr (Some (JBool False))"
  "get_prop (to_json (AppData_js (c\<lparr>isSafeMode := Some False\<rparr>))) ''pageDuration''
     = Inr (Some (to_json (VNum (pageDuration c))))"
  by (simp_all add: to_json_typed map_add_def stored_present stored_absent)

lemma not_finite_numbers_typed:
  "pageDuration c = NaN \<Longrightarrow> \<not> finite_numbers (AppData_js c)"
  by (simp add: AppData_js_def AppData_props_def)

lemma finite_numbers_sample: "finite_numbers (AppData_js sample_config)"
  by (simp add: AppData_js_def AppData_props_def sample_config_def Theme_js_def Page_js_def
      Page_props_def Socials_js_def EmergencyAlert_js_def WeatherConfig_js_def)

section \<open>Loading particular blobs\<close>

lemma map_of_safe_mode_defaults:
  "get_prop (safe_mode_defaults env) ''isSafeMode'' = Inr (Some (JBool True))"
  by (simp add: safe_mode_defaults_def update_conv')

lemma getItem_world_with: "getItem (world_with key b) key = Some b"
  by (simp add: getItem_def localStorage_getItem_def throws_def world_with_def world0_def)

lemma steady_world_with: "throws (world_with key b) GetItem = throws (world_with key b) SetItem"
  by (simp add: throws_def world_with_def world0_def)

lemma getLogs_absent: "getItem w LOG_STORAGE_KEY = None \<Longrightarrow> getLogs w = Inr (JArr [])"
  by (simp add: getLogs_def getLogs_try_def try_catch_def)

lemma getItem_world_with_other: "k \<noteq> key \<Longrightarrow> getItem (world_with key b) k = None"
  by (simp add: getItem_def localStorage_getItem_def throws_def world_with_def world0_def)

lemma load_empty_pages:
  assumes "getItem w STORAGE_KEY = Some (JSON_stringify (JObj stored))"
    and "map_of stored ''pages'' = Some (JArr [])"
    and "truthy (map_of stored ''theme'')" and "truthy (map_of stored ''schoolName'')"
  shows "getStoredData env w
     = Inr (JObj (migrate_tail (AList.update ''pages'' (JArr []) (migrate_head stored))), w)"
proof -
  have c: "\<not> critical_missing stored"
    using assms(2-4) by (simp add: critical_missing_def)
  have "map_of (migrate_head stored) ''pages'' = Some (JArr [])"
    by (simp add: map_of_migrate_head assms(2))
  then have "migrate stored
      = Inr (JObj (migrate_tail (AList.update ''pages'' (JArr []) (migrate_head stored))))"
    by (simp add: migrate_def migrate_pages_empty)
  with c assms(1) have "getStoredData_try env w
      = Inr (JObj (migrate_tail (AList.update ''pages'' (JArr []) (migrate_head stored))))"
    by (simp add: getStoredData_try_def JSON_stringify_def)
  then show ?thesis by (simp add: getStoredData_cases)
qed

lemma load_malformed:
  assumes "getItem w STORAGE_KEY = Some stored"
    and "stored = Malformed \<or> stored = JsonText JNull
         \<or> (\<exists>v. stored = JsonText v \<and> get_prop v ''pages'' = Inr None)"
  shows "\<exists>error. getStoredData_try env w = Inl error"
proof -
  consider "stored = Malformed" | "stored = JsonText JNull"
    | v where "stored = JsonText v" "get_prop v ''pages'' = Inr None"
    using assms(2) by blast
  then show ?thesis
  proof cases
    case 1
    with assms(1) show ?thesis by (simp add: getStoredData_try_def)
  next
    case 2
    with assms(1) show ?thesis by (simp add: getStoredData_try_def)
  next
    case 3
    then have "\<exists>error. check_and_migrate v = Inl error"
      by (cases v) (simp_all add: critical_missing_def)
    with 3 assms(1) show ?thesis by (auto simp: getStoredData_try_def)
  qed
qed

section \<open>The claims\<close>

subsection \<open>The in-memory fallback of \<^verbatim>\<open>safeStorage\<close>\<close>

text \<open>
  Claim C4, as amended. Behind a medium that rejects reads, writes and \<^verbatim>\<open>clear\<close>, a
  non-empty string that is set for a key other than \<^verbatim>\<open>__proto__\<close> is what \<^verbatim>\<open>getItem\<close>
  returns for that key, served from the fallback object. The string is returned as it was
  given, whatever the strings are: the theorem holds for every type \<open>'a\<close> of non-empty
  strings. \<^verbatim>\<open>clear\<close> then empties the fallback object, so that \<^verbatim>\<open>getItem\<close> returns \<^verbatim>\<open>null\<close>
  for every key that does not name a member of \<^verbatim>\<open>Object.prototype\<close>, and leaves what the
  medium holds as it was, since the \<^verbatim>\<open>clear\<close> of the medium threw.
\<close>

theorem fallback_serves_and_clears_behind_blocked_medium:
  assumes "throws w GetItem" and "throws w SetItem" and "throws w Clear"
    and "key \<noteq> ''__proto__''" and "k \<notin> set Object_prototype_members"
  shows "getItem (setItem w key (NonEmpty a)) key = Some (NonEmpty a)
     \<and> map_of (memoryStorage (setItem w key (NonEmpty a))) key = Some (NonEmpty a)
     \<and> memoryStorage (clear (setItem w key (NonEmpty a))) = []
     \<and> getItem (clear (setItem w key (NonEmpty a))) k = None
     \<and> localStorage (clear (setItem w key (NonEmpty a))) = localStorage w"
proof -
  have g: "getItem (setItem w key (NonEmpty a)) key = Some (NonEmpty a)"
    using assms(1,2,4) by (simp add: getItem_setItem_same)
  have m: "map_of (memoryStorage (setItem w key (NonEmpty a))) key = Some (NonEmpty a)"
    using assms(2,4)
    by (simp add: setItem_def localStorage_setItem_def memory_write_def update_conv')
  have t: "throws (setItem w key (NonEmpty a)) Clear" "throws (setItem w key (NonEmpty a)) GetItem"
    using assms(1,3) by (simp_all add: throws_def failing_setItem)
  have l: "localStorage (setItem w key (NonEmpty a)) = localStorage w"
    using assms(2) by (simp add: setItem_def localStorage_setItem_def)
  from g m clear_blocked [OF t(1)] getItem_clear_blocked [OF t assms(5)] l
  show ?thesis by simp
qed

theorem fallback_serves_and_clears_behind_blocked_medium_witness:
  "throws blocked_world GetItem \<and> throws blocked_world SetItem \<and> throws blocked_world Clear
   \<and> ''admin_session'' \<noteq> ''__proto__'' \<and> ''admin_session'' \<notin> set Object_prototype_members
   \<and> getItem (setItem blocked_world ''admin_session'' (JsonText (JStr ''token''))) ''admin_session''
       = Some (JsonText (JStr ''token''))
   \<and> memoryStorage (clear (setItem blocked_world ''admin_session'' (JsonText (JStr ''token'')))) = []
   \<and> getItem (clear (setItem blocked_world ''admin_session'' (JsonText (JStr ''token''))))
         ''admin_session'' = None"
proof -
  have h: "throws blocked_world GetItem" "throws blocked_world SetItem" "throws blocked_world Clear"
    "''admin_session'' \<noteq> ''__proto__''" "''admin_session'' \<notin> set Object_prototype_members"
    by (simp_all add: throws_def blocked_world_def world0_def Object_prototype_members_def)
  from fallback_serves_and_clears_behind_blocked_medium
      [OF h, of "Json (JStr ''token'')"] h
  show ?thesis by simp
qed

text \<open>
  The claim as stated fails where the medium still holds something when it starts to
  reject every operation: \<^verbatim>\<open>clear\<close> cannot empty it.
\<close>

theorem blocked_clear_keeps_persistent_items_counterexample:
  "throws stranded_world GetItem \<and> throws stranded_world SetItem
   \<and> throws stranded_world RemoveItem \<and> throws stranded_world Clear
   \<and> localStorage (clear stranded_world) = [(''HARDY_SIGNAGE_DATA'', JsonText (JObj []))]
   \<and> memoryStorage (clear stranded_world) = []"
  by (simp add: clear_def localStorage_clear_def throws_def stranded_world_def
      blocked_world_def world0_def)

text \<open>
  The empty string is the one string the fallback does not serve back: it is stored in the
  fallback object, but the catch branch of \<^verbatim>\<open>getItem\<close> returns
  \<^verbatim>\<open>memoryStorage[key] || null\<close>, which is \<^verbatim>\<open>null\<close> for it, where \<^verbatim>\<open>localStorage.getItem\<close>
  returns the empty string.
\<close>

lemma blocked_medium_loses_empty_string:
  "map_of (memoryStorage (setItem blocked_world ''k'' EmptyText)) ''k'' = Some EmptyText
   \<and> getItem (setItem blocked_world ''k'' EmptyText) ''k'' = None"
  by (simp add: getItem_def setItem_def localStorage_getItem_def localStorage_setItem_def
      throws_def memory_read_def memory_write_def blocked_world_def world0_def)

text \<open>
  The keys set aside are those the plain fallback object does not treat as data: nothing
  is stored for \<^verbatim>\<open>__proto__\<close>, whose read gives \<^verbatim>\<open>Object.prototype\<close>, and the read of a key
  such as \<^verbatim>\<open>toString\<close> that the object does not own gives the inherited function, also
  after \<^verbatim>\<open>clear\<close>.
\<close>

lemma blocked_medium_prototype_keys:
  "memoryStorage (setItem blocked_world ''__proto__'' (JsonText (JStr ''token''))) = []
   \<and> getItem (setItem blocked_world ''__proto__'' (JsonText (JStr ''token''))) ''__proto__''
       = Some (PrototypeMember ''__proto__'')
   \<and> getItem (clear blocked_world) ''toString'' = Some (PrototypeMember ''toString'')"
  by (simp add: getItem_def setItem_def clear_def localStorage_getItem_def
      localStorage_setItem_def localStorage_clear_def throws_def memory_read_def
      memory_write_def Object_prototype_members_def blocked_world_def world0_def)

text \<open>
  Claim C10: \<^verbatim>\<open>removeItem\<close> and \<^verbatim>\<open>clear\<close> touch the fallback object only when the
  operation of the medium throws. On a world \<open>w\<close> where the two operations succeed the
  fallback object is left as it was, on a world \<open>wb\<close> where they throw the key (or every
  key) is deleted from it and the medium keeps what it held. A non-empty value \<open>v\<close> that
  the fallback object of \<open>w\<close> holds for \<open>key\<close> therefore survives the successful removal, and
  once reads of the medium fail (\<open>GetItem\<close> among the failing operations \<open>ops\<close>),
  \<^verbatim>\<open>getItem(key)\<close> returns it.
\<close>

theorem fallback_deleted_only_when_medium_throws:
  assumes "\<not> throws w RemoveItem" and "\<not> throws w Clear"
    and "throws wb RemoveItem" and "throws wb Clear"
    and "map_of (memoryStorage w) key = Some v" and "v \<noteq> EmptyText"
    and "GetItem \<in> set ops"
  shows "memoryStorage (removeItem w key) = memoryStorage w
     \<and> memoryStorage (clear w) = memoryStorage w
     \<and> memoryStorage (removeItem wb key) = AList.delete key (memoryStorage wb)
     \<and> localStorage (removeItem wb key) = localStorage wb
     \<and> memoryStorage (clear wb) = []
     \<and> localStorage (clear wb) = localStorage wb
     \<and> getItem ((removeItem w key)\<lparr>failing := ops\<rparr>) key = Some v
     \<and> getItem ((clear w)\<lparr>failing := ops\<rparr>) key = Some v"
  using assms
  by (simp add: removeItem_def clear_def localStorage_removeItem_def localStorage_clear_def
      getItem_def localStorage_getItem_def throws_def memory_read_def truthy_blob_iff)

theorem fallback_deleted_only_when_medium_throws_witness:
  "\<not> throws leftover_world RemoveItem \<and> \<not> throws leftover_world Clear
   \<and> throws leftover_blocked_world RemoveItem \<and> throws leftover_blocked_world Clear
   \<and> map_of (memoryStorage leftover_world) ''admin_session'' = Some (JsonText (JStr ''s1''))
   \<and> JsonText (JStr ''s1'') \<noteq> EmptyText
   \<and> GetItem \<in> set [GetItem]
   \<and> memoryStorage (removeItem leftover_world ''admin_session'') = memoryStorage leftover_world
   \<and> memoryStorage (clear leftover_blocked_world) = []
   \<and> getItem ((removeItem leftover_world ''admin_session'')\<lparr>failing := [GetItem]\<rparr>) ''admin_session''
       = Some (JsonText (JStr ''s1''))"
proof -
  have h: "\<not> throws leftover_world RemoveItem" "\<not> throws leftover_world Clear"
    "throws leftover_blocked_world RemoveItem" "throws leftover_blocked_world Clear"
    "map_of (memoryStorage leftover_world) ''admin_session'' = Some (JsonText (JStr ''s1''))"
    "JsonText (JStr ''s1'') \<noteq> EmptyText" "GetItem \<in> set [GetItem]"
    by (simp_all add: throws_def leftover_world_def leftover_blocked_world_def world0_def)
  from fallback_deleted_only_when_medium_throws [OF h] h show ?thesis by simp
qed

subsection \<open>The system log\<close>

text \<open>
  Claim C8: the system log is bounded by 50 and newest first. On a medium whose reads and
  writes go to the same store (both succeed, or both fall back to memory) and whose stored
  log is an array \<open>old\<close>, appending the entries \<open>cs\<close> one after the other leaves the new
  entries in reverse order of appending in front of the old ones, cut to \<open>MAX_LOGS\<close>; after
  at least one append the log has at most 50 entries; 60 appends to an empty log leave
  exactly 50 entries, the first 10 appended gone and the last appended first. Every entry
  written carries the id and the timestamp the host produced during its own call.
\<close>

theorem system_log_bounded_newest_first:
  assumes "throws w GetItem = throws w SetItem" and "getLogs w = Inr (JArr old)"
  shows "\<exists>w' logs. addLogs cs w = Inr w' \<and> getLogs w' = Inr (JArr logs)
     \<and> (cs \<noteq> [] \<longrightarrow> logs = take MAX_LOGS (rev (entries_of cs) @ old) \<and> length logs \<le> 50)
     \<and> (old = [] \<and> length cs = 60 \<longrightarrow> logs = rev (drop 10 (entries_of cs)) \<and> length logs = 50)
     \<and> get_prop (newLog env entry) ''id'' = Inr (Some (JStr (random_id env)))
     \<and> get_prop (newLog env entry) ''timestamp'' = Inr (Some (JNum (Date_now env)))"
proof -
  from addLogs_result [OF assms, of cs] obtain w' where
    w': "addLogs cs w = Inr w'"
      "getLogs w' = Inr (JArr (if cs = [] then old else take MAX_LOGS (rev (entries_of cs) @ old)))"
    by blast
  have sixty: "take MAX_LOGS (rev (entries_of cs)) = rev (drop 10 (entries_of cs))"
    if "length cs = 60"
  proof -
    have "rev (drop 10 (entries_of cs)) = take (length (entries_of cs) - 10) (rev (entries_of cs))"
      by (simp add: rev_drop)
    with that show ?thesis by (simp add: entries_of_def MAX_LOGS_def)
  qed
  have len: "length (entries_of cs) = length cs" by (simp add: entries_of_def)
  have props: "get_prop (newLog env entry) ''id'' = Inr (Some (JStr (random_id env)))"
    "get_prop (newLog env entry) ''timestamp'' = Inr (Some (JNum (Date_now env)))"
    by (simp_all add: newLog_def update_conv')
  show ?thesis
    using w' sixty props by (auto simp: MAX_LOGS_def len)
qed

theorem system_log_bounded_newest_first_witness:
  "throws world0 GetItem = throws world0 SetItem \<and> getLogs world0 = Inr (JArr [])
   \<and> sixty_entries \<noteq> [] \<and> length sixty_entries = 60
   \<and> (\<exists>w'. addLogs sixty_entries world0 = Inr w'
         \<and> getLogs w' = Inr (JArr (rev (drop 10 (entries_of sixty_entries)))))
   \<and> length (rev (drop 10 (entries_of sixty_entries))) = 50"
proof -
  have h1: "throws world0 GetItem = throws world0 SetItem"
    by (simp add: throws_def world0_def)
  have h2: "getLogs world0 = Inr (JArr [])"
    by (simp add: getLogs_def getLogs_try_def try_catch_def getItem_def localStorage_getItem_def
        throws_def world0_def)
  have h3: "length sixty_entries = 60" "sixty_entries \<noteq> []"
    by (simp_all add: sixty_entries_def)
  have h4: "length (rev (drop 10 (entries_of sixty_entries))) = 50"
    by (simp add: entries_of_def h3)
  from system_log_bounded_newest_first
      [OF h1 h2, where cs = sixty_entries and env = env0 and entry = "[]"] h3
  obtain w' where "addLogs sixty_entries world0 = Inr w'"
    and "getLogs w' = Inr (JArr (rev (drop 10 (entries_of sixty_entries))))"
    by auto
  with h1 h2 h3 h4 show ?thesis by blast
qed

subsection \<open>The remote data cache\<close>

text \<open>
  Claim C7: when the entry stored for the key is fresh, that is
  \<^verbatim>\<open>now - entry.timestamp < ttlSeconds * 1000\<close>, \<^verbatim>\<open>safeFetch\<close> returns the data of the entry
  and leaves the world as it was; in particular no URL is added to the requests issued.
\<close>

theorem fresh_entry_served_without_network:
  assumes "getItem w (CACHE_PREFIX @ key) = Some (JSON_stringify (CacheEntry_js entry))"
    and "Date_now env - timestamp entry < ttlSeconds * 1000"
  shows "safeFetch env key url ttlSeconds fallbackData w = Inr (Some (data entry), w)
     \<and> returned (safeFetch env key url ttlSeconds fallbackData w) = Some (Some (data entry))"
  by (simp add: safeFetch_fresh [OF assms] returned_def)

theorem fresh_entry_served_without_network_witness:
  "getItem (world_with (CACHE_PREFIX @ ''weather'') (JSON_stringify (CacheEntry_js fresh_entry)))
       (CACHE_PREFIX @ ''weather'') = Some (JSON_stringify (CacheEntry_js fresh_entry))
   \<and> Date_now env0 - timestamp fresh_entry < 300 * 1000
   \<and> safeFetch env0 ''weather'' ''https://api.open-meteo.com/v1/forecast'' 300 None
        (world_with (CACHE_PREFIX @ ''weather'') (JSON_stringify (CacheEntry_js fresh_entry)))
       = Inr (Some (JStr ''sunny''),
              world_with (CACHE_PREFIX @ ''weather'') (JSON_stringify (CacheEntry_js fresh_entry)))"
proof -
  have h1: "getItem (world_with (CACHE_PREFIX @ ''weather'') (JSON_stringify (CacheEntry_js fresh_entry)))
       (CACHE_PREFIX @ ''weather'') = Some (JSON_stringify (CacheEntry_js fresh_entry))"
    by (simp add: getItem_def localStorage_getItem_def throws_def world_with_def world0_def)
  have h2: "Date_now env0 - timestamp fresh_entry < 300 * 1000"
    by (simp add: env0_def fresh_entry_def)
  from fresh_entry_served_without_network
      [OF h1 h2, of "''https://api.open-meteo.com/v1/forecast''" None] h1 h2
  show ?thesis by (simp add: fresh_entry_def)
qed

text \<open>
  Claim C5: when the entry stored for the key has expired and the request fails (rejected
  or aborted \<^verbatim>\<open>fetch\<close>, a status outside 200-299, a body that does not parse), \<^verbatim>\<open>safeFetch\<close>
  returns the data of the stale entry, whatever fallback the caller supplied, after one
  request to the URL.
\<close>

theorem stale_entry_served_when_request_fails:
  assumes "getItem w (CACHE_PREFIX @ key) = Some (JSON_stringify (CacheEntry_js entry))"
    and "\<not> Date_now env - timestamp entry < ttlSeconds * 1000"
    and "request_fails env url"
  shows "safeFetch env key url ttlSeconds fallbackData w
     = Inr (Some (data entry), w\<lparr>fetched := fetched w @ [url]\<rparr>)"
  by (rule safeFetch_stale [OF assms])

theorem stale_entry_served_when_request_fails_witness:
  "getItem (world_with (CACHE_PREFIX @ ''weather'') (JSON_stringify (CacheEntry_js expired_entry)))
       (CACHE_PREFIX @ ''weather'') = Some (JSON_stringify (CacheEntry_js expired_entry))
   \<and> \<not> Date_now env0 - timestamp expired_entry < 300 * 1000
   \<and> request_fails env0 ''https://api.open-meteo.com/v1/forecast''
   \<and> returned (safeFetch env0 ''weather'' ''https://api.open-meteo.com/v1/forecast'' 300
          (Some (JStr ''fallback''))
          (world_with (CACHE_PREFIX @ ''weather'') (JSON_stringify (CacheEntry_js expired_entry))))
       = Some (Some (JStr ''rainy''))"
proof -
  have h1: "getItem (world_with (CACHE_PREFIX @ ''weather'') (JSON_stringify (CacheEntry_js expired_entry)))
       (CACHE_PREFIX @ ''weather'') = Some (JSON_stringify (CacheEntry_js expired_entry))"
    by (simp add: getItem_def localStorage_getItem_def throws_def world_with_def world0_def)
  have h2: "\<not> Date_now env0 - timestamp expired_entry < 300 * 1000"
    by (simp add: env0_def expired_entry_def)
  have h3: "request_fails env0 ''https://api.open-meteo.com/v1/forecast''"
    by (simp add: request_fails_def env0_def ok_def)
  from stale_entry_served_when_request_fails
      [OF h1 h2 h3, of "Some (JStr ''fallback'')"] h1 h2 h3
  show ?thesis by (simp add: returned_def expired_entry_def)
qed

text \<open>
  Claim C6 says that with no entry stored for the key and a failing request, \<^verbatim>\<open>safeFetch\<close>
  returns the fallback the caller supplied. Line 165 returns \<^verbatim>\<open>fallbackData || null\<close>: a
  supplied fallback that is falsy, such as the number 0, comes back as \<^verbatim>\<open>null\<close>.
\<close>

theorem falsy_fallback_replaced_by_null:
  "getItem world0 (CACHE_PREFIX @ ''visits'') = None
   \<and> fetch env0 ''https://example.org/visits'' = Response 500 EmptyText
   \<and> returned (safeFetch env0 ''visits'' ''https://example.org/visits'' 300 (Some (JNum 0)) world0)
       = Some (Some JNull)"
proof -
  have h1: "getItem world0 (CACHE_PREFIX @ ''visits'') = None"
    by (simp add: getItem_def localStorage_getItem_def throws_def world0_def)
  have h2: "request_fails env0 ''https://example.org/visits''"
    by (simp add: request_fails_def env0_def ok_def)
  have h3: "fetch env0 ''https://example.org/visits'' = Response 500 EmptyText"
    by (simp add: env0_def)
  from safeFetch_fallback [OF h1 h2, of 300 "Some (JNum 0)"] h1 h3
  show ?thesis by (simp add: returned_def fallback_or_null_def)
qed

text \<open>
  Claim C3: neither \<^verbatim>\<open>getStoredData\<close> nor \<^verbatim>\<open>safeFetch\<close> ever completes with an error. For
  every host and every world (whatever is stored, whatever the medium and the network do)
  \<^verbatim>\<open>getStoredData\<close> returns an object that passes the structural check of line 100
  (truthy \<^verbatim>\<open>pages\<close>, \<^verbatim>\<open>theme\<close> and \<^verbatim>\<open>schoolName\<close>) and carries a boolean \<^verbatim>\<open>isSafeMode\<close>, and
  \<^verbatim>\<open>safeFetch\<close> returns a value.
\<close>

theorem load_and_fetch_never_raise:
  "(\<exists>kvs w'. getStoredData env w = Inr (JObj kvs, w') \<and> \<not> critical_missing kvs
       \<and> (\<exists>b. map_of kvs ''isSafeMode'' = Some (JBool b)))
   \<and> (\<exists>v w'. safeFetch env key url ttlSeconds fallbackData w = Inr (v, w'))"
  using getStoredData_usable [of env w] safeFetch_total [of env key url ttlSeconds fallbackData w]
  by blast

theorem load_and_fetch_never_raise_witness:
  "(\<exists>kvs w'. getStoredData env0 (world_with STORAGE_KEY Malformed) = Inr (JObj kvs, w')
       \<and> \<not> critical_missing kvs \<and> (\<exists>b. map_of kvs ''isSafeMode'' = Some (JBool b)))
   \<and> (\<exists>v w'. safeFetch env0 ''weather'' ''https://api.open-meteo.com/v1/forecast'' 300 None
                 (world_with STORAGE_KEY Malformed) = Inr (v, w'))"
  by (rule load_and_fetch_never_raise)

subsection \<open>Loading and saving the configuration\<close>

text \<open>
  Claim C9: a stored object whose \<^verbatim>\<open>pages\<close> is a present but empty array (and whose
  \<^verbatim>\<open>theme\<close> and \<^verbatim>\<open>schoolName\<close> are truthy) is accepted: \<^verbatim>\<open>getStoredData\<close> returns the migrated
  stored object, with \<^verbatim>\<open>pages\<close> still the empty array rather than the default pages,
  \<^verbatim>\<open>schoolName\<close> as stored and \<^verbatim>\<open>isSafeMode\<close> false, and logs nothing (the world is
  unchanged). A stored object \<open>stored2\<close> without a \<^verbatim>\<open>pages\<close> property is handled as corrupted:
  the defaults come back with \<^verbatim>\<open>isSafeMode\<close> true.
\<close>

theorem empty_pages_accepted_absent_pages_rejected:
  assumes "getItem w STORAGE_KEY = Some (JSON_stringify (JObj stored))"
    and "map_of stored ''pages'' = Some (JArr [])"
    and "truthy (map_of stored ''theme'')" and "truthy (map_of stored ''schoolName'')"
    and "getItem w2 STORAGE_KEY = Some (JSON_stringify (JObj stored2))"
    and "map_of stored2 ''pages'' = None"
  shows "(\<exists>kvs. getStoredData env w = Inr (JObj kvs, w)
            \<and> map_of kvs ''pages'' = Some (JArr [])
            \<and> map_of kvs ''schoolName'' = map_of stored ''schoolName''
            \<and> map_of kvs ''isSafeMode'' = Some (JBool False))
     \<and> JArr [] \<noteq> DEFAULT_pages
     \<and> (\<exists>w'. getStoredData env w2
            = Inr (JObj (AList.update ''isSafeMode'' (JBool True) (DEFAULT_DATA env)), w'))
     \<and> map_of (AList.update ''isSafeMode'' (JBool True) (DEFAULT_DATA env)) ''isSafeMode''
         = Some (JBool True)"
proof -
  let ?kvs = "migrate_tail (AList.update ''pages'' (JArr []) (migrate_head stored))"
  have 1: "getStoredData env w = Inr (JObj ?kvs, w)"
    by (rule load_empty_pages [OF assms(1-4)])
  have 2: "map_of ?kvs ''pages'' = Some (JArr [])"
    by (simp add: map_of_migrate_tail update_conv')
  have 3: "map_of ?kvs ''schoolName'' = map_of stored ''schoolName''"
    by (simp add: map_of_migrate_tail update_conv' map_of_migrate_head)
  have 4: "map_of ?kvs ''isSafeMode'' = Some (JBool False)"
    by (rule map_of_migrate_tail_isSafeMode)
  have "stored2 = stored2 \<and> get_prop (JObj stored2) ''pages'' = Inr None"
    using assms(6) by simp
  then obtain error where "getStoredData_try env w2 = Inl error"
    using load_malformed [OF assms(5), of env] by (auto simp: JSON_stringify_def)
  moreover obtain w' where "addLog env (failure_entry env error) w2 = Inr w'"
    using addLog_total by blast
  ultimately have 5: "getStoredData env w2
      = Inr (JObj (AList.update ''isSafeMode'' (JBool True) (DEFAULT_DATA env)), w')"
    by (simp add: getStoredData_cases safe_mode_defaults_def)
  have 6: "JArr [] \<noteq> DEFAULT_pages" by (simp add: DEFAULT_pages_def)
  from 1 2 3 4 5 6 show ?thesis by (simp add: update_conv')
qed

theorem empty_pages_accepted_absent_pages_rejected_witness:
  "getItem (world_with STORAGE_KEY (JSON_stringify (JObj no_pages_stored))) STORAGE_KEY
     = Some (JSON_stringify (JObj no_pages_stored))
   \<and> map_of no_pages_stored ''pages'' = Some (JArr [])
   \<and> truthy (map_of no_pages_stored ''theme'') \<and> truthy (map_of no_pages_stored ''schoolName'')
   \<and> getItem (world_with STORAGE_KEY (JSON_stringify (JObj pages_absent_stored))) STORAGE_KEY
     = Some (JSON_stringify (JObj pages_absent_stored))
   \<and> map_of pages_absent_stored ''pages'' = None
   \<and> (\<exists>kvs. getStoredData env0 (world_with STORAGE_KEY (JSON_stringify (JObj no_pages_stored)))
              = Inr (JObj kvs, world_with STORAGE_KEY (JSON_stringify (JObj no_pages_stored)))
            \<and> map_of kvs ''pages'' = Some (JArr [])
            \<and> map_of kvs ''isSafeMode'' = Some (JBool False))
   \<and> (\<exists>w'. getStoredData env0 (world_with STORAGE_KEY (JSON_stringify (JObj pages_absent_stored)))
            = Inr (JObj (AList.update ''isSafeMode'' (JBool True) (DEFAULT_DATA env0)), w'))"
proof -
  have h: "getItem (world_with STORAGE_KEY (JSON_stringify (JObj no_pages_stored))) STORAGE_KEY
       = Some (JSON_stringify (JObj no_pages_stored))"
    "map_of no_pages_stored ''pages'' = Some (JArr [])"
    "truthy (map_of no_pages_stored ''theme'')" "truthy (map_of no_pages_stored ''schoolName'')"
    "getItem (world_with STORAGE_KEY (JSON_stringify (JObj pages_absent_stored))) STORAGE_KEY
       = Some (JSON_stringify (JObj pages_absent_stored))"
    "map_of pages_absent_stored ''pages'' = None"
    by (simp_all add: getItem_world_with no_pages_stored_def pages_absent_stored_def)
  from empty_pages_accepted_absent_pages_rejected [OF h, of env0] h show ?thesis by blast
qed

text \<open>
  Claim C2, as amended. A stored blob that is not empty and is malformed (text that does not
  parse, the JSON value \<^verbatim>\<open>null\<close>, or a JSON value without a \<^verbatim>\<open>pages\<close> property) makes
  \<^verbatim>\<open>getStoredData\<close> return the defaults with \<^verbatim>\<open>isSafeMode\<close> true; and when reads and writes of
  the medium go to the same store and the stored system log is an array \<open>old\<close>, the log
  afterwards is \<open>old\<close> with exactly one new entry in front, the entry of lines 147-152 for the
  error caught, cut to \<open>MAX_LOGS\<close>.
\<close>

theorem malformed_blob_gives_safe_mode_and_one_log_entry:
  assumes "getItem w STORAGE_KEY = Some stored"
    and "stored = Malformed \<or> stored = JsonText JNull
         \<or> (\<exists>v. stored = JsonText v \<and> get_prop v ''pages'' = Inr None)"
    and "throws w GetItem = throws w SetItem" and "getLogs w = Inr (JArr old)"
  shows "\<exists>w' error.
       getStoredData env w
         = Inr (JObj (AList.update ''isSafeMode'' (JBool True) (DEFAULT_DATA env)), w')
     \<and> map_of (AList.update ''isSafeMode'' (JBool True) (DEFAULT_DATA env)) ''isSafeMode''
         = Some (JBool True)
     \<and> getLogs w' = Inr (JArr (take MAX_LOGS (newLog env (failure_entry env error) # old)))"
proof -
  obtain error where "getStoredData_try env w = Inl error"
    using load_malformed [OF assms(1,2)] by blast
  from getStoredData_failure [OF this assms(3,4)] show ?thesis
    by (auto simp: safe_mode_defaults_def update_conv')
qed

theorem malformed_blob_gives_safe_mode_and_one_log_entry_witness:
  "getItem (world_with STORAGE_KEY Malformed) STORAGE_KEY = Some Malformed
   \<and> throws (world_with STORAGE_KEY Malformed) GetItem = throws (world_with STORAGE_KEY Malformed) SetItem
   \<and> getLogs (world_with STORAGE_KEY Malformed) = Inr (JArr [])
   \<and> (\<exists>w' error.
         getStoredData env0 (world_with STORAGE_KEY Malformed)
           = Inr (JObj (AList.update ''isSafeMode'' (JBool True) (DEFAULT_DATA env0)), w')
       \<and> getLogs w' = Inr (JArr (take MAX_LOGS [newLog env0 (failure_entry env0 error)])))"
proof -
  have h1: "getItem (world_with STORAGE_KEY Malformed) STORAGE_KEY = Some Malformed"
    by (rule getItem_world_with)
  have h2: "Malformed = Malformed \<or> Malformed = JsonText JNull
         \<or> (\<exists>v. Malformed = JsonText v \<and> get_prop v ''pages'' = Inr None)"
    by simp
  have h3: "throws (world_with STORAGE_KEY Malformed) GetItem
      = throws (world_with STORAGE_KEY Malformed) SetItem"
    by (rule steady_world_with)
  have h4: "getLogs (world_with STORAGE_KEY Malformed) = Inr (JArr [])"
    by (rule getLogs_absent)
      (simp add: getItem_world_with_other LOG_STORAGE_KEY_def STORAGE_KEY_def)
  from malformed_blob_gives_safe_mode_and_one_log_entry [OF h1 h2 h3 h4, of env0] h1 h3 h4
  show ?thesis by blast
qed

text \<open>
  The claim as stated fails for the empty string, which \<^verbatim>\<open>JSON.parse\<close> rejects: line 95
  treats it like an absent blob, so the plain defaults come back with \<^verbatim>\<open>isSafeMode\<close> false
  and the world, the system log included, is unchanged.
\<close>

theorem empty_blob_not_safe_mode_counterexample:
  "JSON_parse EmptyText = Inl SyntaxError
   \<and> getItem (world_with STORAGE_KEY EmptyText) STORAGE_KEY = Some EmptyText
   \<and> getStoredData env0 (world_with STORAGE_KEY EmptyText)
       = Inr (JObj (DEFAULT_DATA env0), world_with STORAGE_KEY EmptyText)
   \<and> map_of (DEFAULT_DATA env0) ''isSafeMode'' = Some (JBool False)"
  by (simp add: getItem_world_with getStoredData_cases getStoredData_try_def
      DEFAULT_DATA_isSafeMode)

text \<open>
  Claim C1, as amended. For every configuration \<open>c\<close> of type \<^verbatim>\<open>AppData\<close> whose \<^verbatim>\<open>schoolName\<close>
  is not empty and whose numbers are all finite (the widget settings being plain data), on
  a medium whose reads and writes go to the same store, \<^verbatim>\<open>getStoredData()\<close> after
  \<^verbatim>\<open>saveStoredData(c)\<close> returns \<open>c\<close> with \<^verbatim>\<open>isSafeMode\<close> false, and the load changes nothing in
  the world (no log entry). Without the condition on the numbers what comes back is
  \<open>to_json\<close> of that configuration.
\<close>

theorem save_then_load_round_trip:
  assumes "schoolName c \<noteq> []" and "finite_numbers (AppData_js c)"
    and "throws w GetItem = throws w SetItem"
  shows "map_option of_json (returned (save_then_load env (AppData_js c) w))
       = Some (AppData_js (c\<lparr>isSafeMode := Some False\<rparr>))
     \<and> (\<exists>w1. saveStoredData (AppData_js c) w = Inr w1
           \<and> getStoredData env w1
               = Inr (to_json (AppData_js (c\<lparr>isSafeMode := Some False\<rparr>)), w1))"
proof -
  from round_trip [OF assms(1,3), of env] obtain w1 where
    w1: "saveStoredData (AppData_js c) w = Inr w1"
      "getStoredData env w1 = Inr (to_json (AppData_js (c\<lparr>isSafeMode := Some False\<rparr>)), w1)"
    by blast
  have "of_json (to_json (AppData_js (c\<lparr>isSafeMode := Some False\<rparr>)))
      = AppData_js (c\<lparr>isSafeMode := Some False\<rparr>)"
    by (rule of_json_to_json) (rule finite_numbers_typed [OF assms(2)])
  with w1 show ?thesis by (auto simp: save_then_load_def returned_def)
qed

theorem save_then_load_round_trip_witness:
  "schoolName sample_config \<noteq> [] \<and> finite_numbers (AppData_js sample_config)
   \<and> throws world0 GetItem = throws world0 SetItem
   \<and> map_option of_json (returned (save_then_load env0 (AppData_js sample_config) world0))
       = Some (AppData_js (sample_config\<lparr>isSafeMode := Some False\<rparr>))"
proof -
  have h1: "schoolName sample_config \<noteq> []" by (simp add: sample_config_def)
  have h2: "finite_numbers (AppData_js sample_config)" by (rule finite_numbers_sample)
  have h3: "throws world0 GetItem = throws world0 SetItem" by (simp add: throws_def world0_def)
  from save_then_load_round_trip [OF h1 h2 h3, of env0] h1 h2 h3 show ?thesis by blast
qed

text \<open>
  The claim as stated fails for two configurations of type \<^verbatim>\<open>AppData\<close>. One has the empty
  string as \<^verbatim>\<open>schoolName\<close>: it is saved, and the load returns the defaults in safe mode. The
  other has \<^verbatim>\<open>NaN\<close> as \<^verbatim>\<open>pageDuration\<close>: it is saved and loaded, and its \<^verbatim>\<open>pageDuration\<close> comes
  back as \<^verbatim>\<open>null\<close>.
\<close>

theorem blank_school_name_counterexample:
  "returned (save_then_load env0 (AppData_js blank_name_config) world0)
       = Some (safe_mode_defaults env0)
   \<and> get_prop (safe_mode_defaults env0) ''isSafeMode'' = Inr (Some (JBool True))
   \<and> get_prop (to_json (AppData_js (blank_name_config\<lparr>isSafeMode := Some False\<rparr>))) ''isSafeMode''
       = Inr (Some (JBool False))
   \<and> pageDuration nan_duration_config = NaN
   \<and> returned (save_then_load env0 (AppData_js nan_duration_config) world0)
       = Some (to_json (AppData_js (nan_duration_config\<lparr>isSafeMode := Some False\<rparr>)))
   \<and> get_prop (to_json (AppData_js (nan_duration_config\<lparr>isSafeMode := Some False\<rparr>))) ''pageDuration''
       = Inr (Some JNull)
   \<and> map_option of_json (returned (save_then_load env0 (AppData_js nan_duration_config) world0))
       \<noteq> Some (AppData_js (nan_duration_config\<lparr>isSafeMode := Some False\<rparr>))"
proof -
  have steady: "throws world0 GetItem = throws world0 SetItem"
    by (simp add: throws_def world0_def)
  have blank: "schoolName blank_name_config = []" by (simp add: blank_name_config_def)
  have named: "schoolName nan_duration_config \<noteq> []"
    by (simp add: nan_duration_config_def sample_config_def)
  have nan: "pageDuration nan_duration_config = NaN" by (simp add: nan_duration_config_def)
  from round_trip [OF named steady, of env0]
  have 1: "returned (save_then_load env0 (AppData_js nan_duration_config) world0)
       = Some (to_json (AppData_js (nan_duration_config\<lparr>isSafeMode := Some False\<rparr>)))"
    by (auto simp: save_then_load_def returned_def)
  have 2: "get_prop (to_json (AppData_js (nan_duration_config\<lparr>isSafeMode := Some False\<rparr>))) ''pageDuration''
       = Inr (Some JNull)"
    by (simp add: get_prop_loaded nan)
  have "\<not> finite_numbers (AppData_js (nan_duration_config\<lparr>isSafeMode := Some False\<rparr>))"
    by (rule not_finite_numbers_typed) (simp add: nan)
  then have "of_json (to_json (AppData_js (nan_duration_config\<lparr>isSafeMode := Some False\<rparr>)))
      \<noteq> AppData_js (nan_duration_config\<lparr>isSafeMode := Some False\<rparr>)"
    using finite_numbers_of_json [of "to_json (AppData_js (nan_duration_config\<lparr>isSafeMode := Some False\<rparr>))"]
    by auto
  with 1 have 3: "map_option of_json (returned (save_then_load env0 (AppData_js nan_duration_config) world0))
       \<noteq> Some (AppData_js (nan_duration_config\<lparr>isSafeMode := Some False\<rparr>))"
    by simp
  from blank_name_rejected [OF blank steady, of env0] map_of_safe_mode_defaults [of env0]
    get_prop_loaded(1) [of blank_name_config] nan 1 2 3
  show ?thesis by simp
qed

end
